theory Spec2Isabelle
  imports Main "HOL-Library.Word"
begin

section \<open>Status codes and reportable statuses (status.go)\<close>

text \<open>
  \<^verbatim>\<open>StatusCode\<close> is a Go \<^verbatim>\<open>int\<close>. A Go \<^verbatim>\<open>error\<close> value is either a
  \<^verbatim>\<open>*ReportableStatus\<close> (code and message) or any other error, of which the model keeps
  the text; the nil error is \<open>None\<close> of \<open>error option\<close>.
\<close>

type_synonym StatusCode = int

definition StatusServiceReady :: StatusCode where "StatusServiceReady = 220"
definition StatusServiceClosing :: StatusCode where "StatusServiceClosing = 221"
definition StatusAuthenticated :: StatusCode where "StatusAuthenticated = 235"
definition StatusOK :: StatusCode where "StatusOK = 250"
definition StatusProvideCredentials :: StatusCode where "StatusProvideCredentials = 334"
definition StatusStartMailInput :: StatusCode where "StatusStartMailInput = 354"
definition StatusSyntaxError :: StatusCode where "StatusSyntaxError = 501"
definition StatusCommandNotImplemented :: StatusCode where "StatusCommandNotImplemented = 502"
definition StatusBadSequence :: StatusCode where "StatusBadSequence = 503"

datatype error = ReportableStatus StatusCode string | OtherError string

text \<open>
  \<^verbatim>\<open>NewReportableStatus(code, format, args...)\<close> formats the message with
  \<^verbatim>\<open>fmt.Sprintf\<close>. Every call in the package passes no further argument and a format
  without a percent sign, which \<^verbatim>\<open>Sprintf\<close> returns unchanged.
\<close>

definition NewReportableStatus :: "StatusCode \<Rightarrow> string \<Rightarrow> error" where
  "NewReportableStatus code format = ReportableStatus code format"

definition AuthSuccess :: error where
  "AuthSuccess = NewReportableStatus StatusAuthenticated ''OK, you are now authenticated''"
definition GoAhead :: error where
  "GoAhead = NewReportableStatus StatusOK ''Go ahead''"
definition ThankYou :: error where
  "ThankYou = NewReportableStatus StatusOK ''Thank you''"
definition ErrBadSequence :: error where
  "ErrBadSequence = NewReportableStatus StatusBadSequence ''Invalid command sequence''"
definition ErrDecodingCredentials :: error where
  "ErrDecodingCredentials =
     NewReportableStatus StatusSyntaxError (''Couldn'' @ [CHR 0x27] @ ''t decode your credentials'')"
definition ErrInvalidSyntax :: error where
  "ErrInvalidSyntax = NewReportableStatus StatusSyntaxError ''Invalid syntax''"
definition ErrMalformedEmail :: error where
  "ErrMalformedEmail = NewReportableStatus StatusSyntaxError ''Malformed email address''"
definition ErrNoHelo :: error where
  "ErrNoHelo = NewReportableStatus StatusBadSequence ''Please introduce yourself first''"

section \<open>Library functions the package calls\<close>

subsection \<open>Decimal formatting (the verb \<^verbatim>\<open>%d\<close>)\<close>

fun digits :: "nat \<Rightarrow> string" where
  "digits n =
     (if n < 10 then [char_of (48 + n)]
      else digits (n div 10) @ [char_of (48 + n mod 10)])"

declare digits.simps [simp del]

definition fmt_d :: "int \<Rightarrow> string" where
  "fmt_d i = (if i < 0 then CHR ''-'' # digits (nat (- i)) else digits (nat i))"

subsection \<open>\<^verbatim>\<open>strings.Fields\<close>, \<^verbatim>\<open>strings.Split\<close>, \<^verbatim>\<open>strings.ToUpper\<close>\<close>

text \<open>
  Strings are byte lists. The model covers the ASCII behaviour of the three functions:
  the six ASCII white-space bytes separate fields and the letters a to z are raised; the
  Unicode spaces and case pairs beyond ASCII, which Go also knows, are left alone.
\<close>

definition isSpace :: "char \<Rightarrow> bool" where
  "isSpace c = (c \<in> set [CHR 0x09, CHR 0x0A, CHR 0x0B, CHR 0x0C, CHR 0x0D, CHR 0x20])"

fun fields_from :: "string \<Rightarrow> string \<Rightarrow> string list" where
  "fields_from cur [] = (if cur = [] then [] else [cur])"
| "fields_from cur (c # cs) =
     (if isSpace c then (if cur = [] then fields_from [] cs else cur # fields_from [] cs)
      else fields_from (cur @ [c]) cs)"

definition Fields :: "string \<Rightarrow> string list" where
  "Fields s = fields_from [] s"

text \<open>
  \<^verbatim>\<open>strings.Split\<close> and \<^verbatim>\<open>bytes.Split\<close> with a separator of one byte: one part more
  than there are separators, so the empty input gives one empty part.
\<close>

fun Split :: "string \<Rightarrow> char \<Rightarrow> string list" where
  "Split [] sep = [[]]"
| "Split (c # cs) sep =
     (if c = sep then [] # Split cs sep
      else (case Split cs sep of [] \<Rightarrow> [[c]] | p # ps \<Rightarrow> (c # p) # ps))"

definition upper_char :: "char \<Rightarrow> char" where
  "upper_char c =
     (let n = (of_char c :: nat) in if 97 \<le> n \<and> n \<le> 122 then char_of (n - 32) else c)"

definition ToUpper :: "string \<Rightarrow> string" where
  "ToUpper s = map upper_char s"

definition HasPrefix :: "string \<Rightarrow> string \<Rightarrow> bool" where
  "HasPrefix s p = (take (length p) s = p)"

definition HasSuffix :: "string \<Rightarrow> string \<Rightarrow> bool" where
  "HasSuffix s p = (length p \<le> length s \<and> drop (length s - length p) s = p)"

subsection \<open>\<^verbatim>\<open>base64.StdEncoding.DecodeString\<close>\<close>

text \<open>
  The standard alphabet with mandatory padding. Carriage returns and line feeds are
  skipped wherever they stand; the rest is read four characters at a time; padding is
  accepted only in the last group (\<^verbatim>\<open>xx==\<close> or \<^verbatim>\<open>xxx=\<close>), and the bits left over in a
  padded group are not checked (the encoding is not strict).
\<close>

definition b64val :: "char \<Rightarrow> nat option" where
  "b64val c =
     (let n = (of_char c :: nat) in
      if 65 \<le> n \<and> n \<le> 90 then Some (n - 65)
      else if 97 \<le> n \<and> n \<le> 122 then Some (n - 71)
      else if 48 \<le> n \<and> n \<le> 57 then Some (n + 4)
      else if n = 43 then Some 62
      else if n = 47 then Some 63
      else None)"

fun decode_quanta :: "string \<Rightarrow> string option" where
  "decode_quanta [] = Some []"
| "decode_quanta (a # b # c # d # rest) =
     (case (b64val a, b64val b) of
        (Some x, Some y) \<Rightarrow>
          (if c = CHR ''='' then
             (if d = CHR ''='' \<and> rest = [] then Some [char_of (x * 4 + y div 16)] else None)
           else (case b64val c of
                   None \<Rightarrow> None
                 | Some z \<Rightarrow>
                     (if d = CHR ''='' then
                        (if rest = []
                         then Some [char_of (x * 4 + y div 16), char_of (y mod 16 * 16 + z div 4)]
                         else None)
                      else (case b64val d of
                              None \<Rightarrow> None
                            | Some v \<Rightarrow>
                                map_option
                                  (\<lambda>r. char_of (x * 4 + y div 16) #
                                       char_of (y mod 16 * 16 + z div 4) #
                                       char_of (z mod 4 * 64 + v) # r)
                                  (decode_quanta rest)))))
      | _ \<Rightarrow> None)"
| "decode_quanta _ = None"

definition DecodeString :: "string \<Rightarrow> string option" where
  "DecodeString s = decode_quanta (filter (\<lambda>c. c \<noteq> CHR 0x0A \<and> c \<noteq> CHR 0x0D) s)"

section \<open>The command parser (command.go)\<close>

text \<open>The field \<^verbatim>\<open>fields\<close> of the source is \<open>cfields\<close> here.\<close>

record command =
  line :: string
  action :: string
  cfields :: "string list"
  params :: "string list"

definition parseLine :: "string \<Rightarrow> command" where
  "parseLine l =
     (let fs = Fields l in
      \<lparr>line = l,
       action = (if length fs > 0 then ToUpper (fs ! 0) else []),
       cfields = fs,
       params = (if length fs > 1 then Split (fs ! 1) (CHR '':'') else [])\<rparr>)"

section \<open>The address validator (address.go)\<close>

text \<open>
  \<^verbatim>\<open>mail.ParseAddress\<close> of the standard library (the RFC 5322 address parser) is a
  parameter: it gets a string and returns the parsed address, a display name and the
  bare address, or fails.
\<close>

record MailAddress =
  Name :: string
  Address :: string

type_synonym mail_parser = "string \<Rightarrow> MailAddress option"

definition parseAddress :: "mail_parser \<Rightarrow> string \<Rightarrow> error + string" where
  "parseAddress mail_ParseAddress src =
     (if \<not> HasPrefix src ''<'' \<or> \<not> HasSuffix src ''>'' then Inl ErrMalformedEmail
      else (case mail_ParseAddress src of
              None \<Rightarrow> Inl ErrMalformedEmail
            | Some addr \<Rightarrow> Inr (Address addr)))"

section \<open>The transport and the external collaborators\<close>

text \<open>
  The connection as the session sees it: the lines the peer still sends (reading past
  them is the end of the stream), the lines written so far, how many writes still
  succeed (\<open>None\<close>: all of them), what setting the read deadline and closing return,
  the peer address, whether the handle is the TLS server wrapper of the accepted
  connection, and whether it has been closed. Time is not modelled: a read that runs
  into its deadline is a read that fails.
\<close>

record conn =
  rx :: "string list"
  tx :: "string list"
  tx_left :: "nat option"
  deadline_err :: "string option"
  close_err :: "string option"
  peer :: string
  tls_server :: bool
  is_closed :: bool

definition conn_write :: "string \<Rightarrow> conn \<Rightarrow> string option \<times> conn" where
  "conn_write l c =
     (case tx_left c of
        None \<Rightarrow> (None, c\<lparr>tx := tx c @ [l]\<rparr>)
      | Some 0 \<Rightarrow> (Some ''write failed'', c)
      | Some (Suc n) \<Rightarrow> (None, c\<lparr>tx := tx c @ [l], tx_left := Some n\<rparr>))"

definition conn_close :: "conn \<Rightarrow> string option \<times> conn" where
  "conn_close c = (close_err c, c\<lparr>is_closed := True\<rparr>)"

definition tls_Server :: "conn \<Rightarrow> string \<Rightarrow> conn" where
  "tls_Server c config = c\<lparr>tls_server := True\<rparr>"

text \<open>
  The policy handler (\<^verbatim>\<open>SessionHandler\<close>), the message handler
  (\<^verbatim>\<open>MessageHandler\<close>) and the data sink (\<^verbatim>\<open>io.WriteCloser\<close>) are interfaces whose
  implementations the caller supplies. An object is a reference; all their state, which
  they may share, is one value of type \<open>'w\<close> that every method takes and returns. A nil
  interface value is \<open>None\<close> of \<open>ref option\<close>, and a call on it panics. A method that
  returns a value and an error returns \<open>Inl\<close> the error or \<open>Inr\<close> the value.
\<close>

type_synonym ref = nat

record 'w handlers =
  Authenticate :: "ref \<Rightarrow> string \<Rightarrow> string \<Rightarrow> 'w \<Rightarrow> error option \<times> 'w"
  GetMessageHandler :: "ref \<Rightarrow> string \<Rightarrow> 'w \<Rightarrow> (error + ref option) \<times> 'w"
  HandleHELO :: "ref \<Rightarrow> string \<Rightarrow> bool \<Rightarrow> 'w \<Rightarrow> error option \<times> 'w"
  HandleSessionError :: "ref \<Rightarrow> error \<Rightarrow> 'w \<Rightarrow> 'w"
  MaxMessageSize :: "ref \<Rightarrow> 'w \<Rightarrow> 64 word \<times> 'w"
  AddRecipient :: "ref \<Rightarrow> string \<Rightarrow> 'w \<Rightarrow> error option \<times> 'w"
  GetDataWriter :: "ref \<Rightarrow> 'w \<Rightarrow> (error + ref option) \<times> 'w"
  Write :: "ref \<Rightarrow> string \<Rightarrow> 'w \<Rightarrow> error option \<times> 'w"
  Close :: "ref \<Rightarrow> 'w \<Rightarrow> error option \<times> 'w"

record 'w Server =
  Hostname :: string
  OnNewConnection :: "string \<Rightarrow> bool \<Rightarrow> 'w \<Rightarrow> (error + ref option) \<times> 'w"
  RequireAuth :: bool
  RequireTLS :: bool
  Timeout :: int
  TLSConfig :: "string option"

section \<open>The session (session.go)\<close>

text \<open>
  The fields of \<^verbatim>\<open>session\<close>. The server is immutable and is a parameter of every
  function; the reader and the writer are views of the connection; \<open>ext\<close> is the state
  of the external collaborators, which the session reaches through their methods only.
\<close>

record 'w session =
  sHandler :: "ref option"
  mHandler :: "ref option"
  conn :: conn
  gotHelo :: bool
  isTLS :: bool
  keepGoing :: bool
  ext :: 'w

text \<open>A call returns, or it panics: at a nil interface value or at an index out of range.\<close>

datatype 'a outcome = Return 'a | Panic string

definition nil_dereference :: string where
  "nil_dereference = ''invalid memory address or nil pointer dereference''"

definition index_out_of_range :: string where
  "index_out_of_range = ''index out of range''"

type_synonym 'w operationHandler =
  "'w session \<Rightarrow> command \<Rightarrow> error option outcome \<times> 'w session"

definition newSession :: "ref option \<Rightarrow> conn \<Rightarrow> bool \<Rightarrow> 'w \<Rightarrow> 'w session" where
  "newSession handler c tls w =
     \<lparr>sHandler = handler, mHandler = None, conn = c, gotHelo = False, isTLS = tls,
      keepGoing = True, ext = w\<rparr>"

text \<open>
  \<^verbatim>\<open>writer.PrintfLine\<close> writes one line and flushes; \<^verbatim>\<open>reader.ReadLine\<close> returns the
  next line without its terminator. Their errors are transport errors, never a
  \<^verbatim>\<open>ReportableStatus\<close>.
\<close>

definition PrintfLine :: "string \<Rightarrow> 'w session \<Rightarrow> error option \<times> 'w session" where
  "PrintfLine l s =
     (case conn_write l (conn s) of (e, c) \<Rightarrow> (map_option OtherError e, s\<lparr>conn := c\<rparr>))"

definition ReadLine :: "'w session \<Rightarrow> (error + string) \<times> 'w session" where
  "ReadLine s =
     (case rx (conn s) of
        [] \<Rightarrow> (Inl (OtherError ''EOF''), s)
      | l # ls \<Rightarrow> (Inr l, s\<lparr>conn := (conn s)\<lparr>rx := ls\<rparr>\<rparr>))"

definition SetReadDeadline :: "'w session \<Rightarrow> error option" where
  "SetReadDeadline s = map_option OtherError (deadline_err (conn s))"

subsection \<open>handleError\<close>

text \<open>
  The last two statements of \<^verbatim>\<open>handleError\<close>. The recursive call of the source gets
  the error of \<^verbatim>\<open>PrintfLine\<close>, which is nil or a transport error, so it returns at once
  or runs these two statements.
\<close>

definition reportFatal :: "'w handlers \<Rightarrow> error \<Rightarrow> 'w session \<Rightarrow> unit outcome \<times> 'w session" where
  "reportFatal H e s =
     (let s1 = s\<lparr>keepGoing := False\<rparr> in
      case sHandler s1 of
        None \<Rightarrow> (Panic nil_dereference, s1)
      | Some h \<Rightarrow> (Return (), s1\<lparr>ext := HandleSessionError H h e (ext s1)\<rparr>))"

definition handleError :: "'w handlers \<Rightarrow> error option \<Rightarrow> 'w session \<Rightarrow> unit outcome \<times> 'w session" where
  "handleError H err s =
     (case err of
        None \<Rightarrow> (Return (), s)
      | Some (ReportableStatus code msg) \<Rightarrow>
          (case PrintfLine (fmt_d code @ '' '' @ msg) s of
             (None, s1) \<Rightarrow> (Return (), s1)
           | (Some e, s1) \<Rightarrow> reportFatal H e s1)
      | Some (OtherError t) \<Rightarrow> reportFatal H (OtherError t) s)"

subsection \<open>The verb handlers\<close>

definition extensions :: "'w Server \<Rightarrow> 'w handlers \<Rightarrow> 'w session \<Rightarrow> string list outcome \<times> 'w session" where
  "extensions srv H s =
     (case sHandler s of
        None \<Rightarrow> (Panic nil_dereference, s)
      | Some h \<Rightarrow>
          (case MaxMessageSize H h (ext s) of
             (n, w) \<Rightarrow>
               (let e0 = [digits (unat n) @ '' SIZE'', ''8BITMIME'', ''PIPELINING''];
                    e1 = (if TLSConfig srv \<noteq> None \<and> \<not> isTLS s then e0 @ [''STARTTLS''] else e0);
                    e2 = (if RequireAuth srv then e1 @ [''AUTH PLAIN LOGIN''] else e1)
                in (Return e2, s\<lparr>ext := w\<rparr>))))"

text \<open>The loop of \<^verbatim>\<open>handleEHLO\<close> over all capabilities but the last: it stops at the first failed write.\<close>

fun write_lines :: "string list \<Rightarrow> 'w session \<Rightarrow> error option \<times> 'w session" where
  "write_lines [] s = (None, s)"
| "write_lines (l # ls) s =
     (case PrintfLine l s of
        (Some e, s1) \<Rightarrow> (Some e, s1)
      | (None, s1) \<Rightarrow> write_lines ls s1)"

definition handleEHLO :: "'w Server \<Rightarrow> 'w handlers \<Rightarrow> 'w operationHandler" where
  "handleEHLO srv H s cmd =
     (if length (cfields cmd) < 2 then (Return (Some ErrInvalidSyntax), s)
      else
        (let s1 = s\<lparr>mHandler := None\<rparr> in
         case sHandler s1 of
           None \<Rightarrow> (Panic nil_dereference, s1)
         | Some h \<Rightarrow>
             (case HandleHELO H h (cfields cmd ! 1) True (ext s1) of
                (Some e, w) \<Rightarrow> (Return (Some e), s1\<lparr>ext := w\<rparr>)
              | (None, w) \<Rightarrow>
                  (case extensions srv H (s1\<lparr>ext := w\<rparr>) of
                     (Panic p, s2) \<Rightarrow> (Panic p, s2)
                   | (Return exts, s2) \<Rightarrow>
                       (case write_lines
                               (if length exts > 1
                                then map (\<lambda>ext. fmt_d StatusOK @ ''-'' @ ext) (butlast exts)
                                else []) s2 of
                          (Some e, s3) \<Rightarrow> (Return (Some e), s3)
                        | (None, s3) \<Rightarrow>
                            (if exts = [] then (Panic index_out_of_range, s3\<lparr>gotHelo := True\<rparr>)
                             else (Return (Some (NewReportableStatus StatusOK (last exts))),
                                   s3\<lparr>gotHelo := True\<rparr>)))))))"

definition handleHELO :: "'w handlers \<Rightarrow> 'w operationHandler" where
  "handleHELO H s cmd =
     (if length (cfields cmd) < 2 then (Return (Some ErrInvalidSyntax), s)
      else
        (let s1 = s\<lparr>mHandler := None\<rparr> in
         case sHandler s1 of
           None \<Rightarrow> (Panic nil_dereference, s1)
         | Some h \<Rightarrow>
             (case HandleHELO H h (cfields cmd ! 1) False (ext s1) of
                (Some e, w) \<Rightarrow> (Return (Some e), s1\<lparr>ext := w\<rparr>)
              | (None, w) \<Rightarrow> (Return (Some GoAhead), s1\<lparr>ext := w, gotHelo := True\<rparr>))))"

definition handleMAIL :: "'w Server \<Rightarrow> 'w handlers \<Rightarrow> mail_parser \<Rightarrow> 'w operationHandler" where
  "handleMAIL srv H mail_ParseAddress s cmd =
     (if \<not> gotHelo s then (Return (Some ErrNoHelo), s)
      else if RequireTLS srv \<and> \<not> isTLS s then
        (Return (Some (NewReportableStatus StatusBadSequence ''please start TLS 1st'')), s)
      else if length (params cmd) \<le> 1 then (Panic index_out_of_range, s)
      else
        (case parseAddress mail_ParseAddress (params cmd ! 1) of
           Inl e \<Rightarrow> (Return (Some e), s)
         | Inr from \<Rightarrow>
             (case sHandler s of
                None \<Rightarrow> (Panic nil_dereference, s)
              | Some h \<Rightarrow>
                  (case GetMessageHandler H h from (ext s) of
                     (Inl e, w) \<Rightarrow> (Return (Some e), s\<lparr>ext := w\<rparr>)
                   | (Inr m, w) \<Rightarrow> (Return (Some GoAhead), s\<lparr>ext := w, mHandler := m\<rparr>)))))"

definition handleNOOP :: "'w operationHandler" where
  "handleNOOP s cmd = (Return (Some GoAhead), s)"

definition handleQUIT :: "'w operationHandler" where
  "handleQUIT s cmd =
     (Return (Some (NewReportableStatus StatusServiceClosing ''OK, bye'')), s\<lparr>keepGoing := False\<rparr>)"

definition handleRCPT :: "'w handlers \<Rightarrow> mail_parser \<Rightarrow> 'w operationHandler" where
  "handleRCPT H mail_ParseAddress s cmd =
     (case mHandler s of
        None \<Rightarrow> (Return (Some ErrBadSequence), s)
      | Some m \<Rightarrow>
          (if length (params cmd) \<le> 1 then (Panic index_out_of_range, s)
           else
             (case parseAddress mail_ParseAddress (params cmd ! 1) of
                Inl e \<Rightarrow> (Return (Some e), s)
              | Inr recipient \<Rightarrow>
                  (case AddRecipient H m recipient (ext s) of
                     (Some e, w) \<Rightarrow> (Return (Some e), s\<lparr>ext := w\<rparr>)
                   | (None, w) \<Rightarrow> (Return (Some GoAhead), s\<lparr>ext := w\<rparr>)))))"

definition handleRSET :: "'w operationHandler" where
  "handleRSET s cmd = (Return (Some GoAhead), s\<lparr>mHandler := None\<rparr>)"

text \<open>
  \<^verbatim>\<open>handleSTARTTLS\<close>. The TLS wrapper refers to the live connection, so the new session
  is bound to the wrapper of the connection as it is after the reply was written. The
  result of \<^verbatim>\<open>SetDeadline\<close> is ignored by the source.
\<close>

definition handleSTARTTLS :: "'w Server \<Rightarrow> 'w operationHandler" where
  "handleSTARTTLS srv s cmd =
     (if isTLS s then
        (Return (Some (NewReportableStatus StatusSyntaxError ''already running TLS'')), s)
      else
        (case TLSConfig srv of
           None \<Rightarrow>
             (Return (Some (NewReportableStatus StatusCommandNotImplemented ''TLS not supported'')), s)
         | Some config \<Rightarrow>
             (case PrintfLine (fmt_d StatusOK @ '' Go ahead'') s of
                (Some e, s1) \<Rightarrow> (Return (Some e), s1)
              | (None, s1) \<Rightarrow>
                  (case OnNewConnection srv (peer (conn s1)) True (ext s1) of
                     (Inl e, w) \<Rightarrow> (Return (Some e), s1\<lparr>ext := w\<rparr>)
                   | (Inr newHandler, w) \<Rightarrow>
                       (Return None, newSession newHandler (tls_Server (conn s1) config) True w)))))"

subsection \<open>DATA\<close>

text \<open>
  \<^verbatim>\<open>io.Copy\<close> from the dot reader into the sink. The dot reader decodes the body: the
  lines up to the line that holds a single dot, each without a leading dot and ended by
  a line feed; it fails with an unexpected end of the stream when the input ends before
  that line. \<^verbatim>\<open>io.Copy\<close> fills its buffer of 32 KiB from the dot reader and hands it to
  the sink in one \<^verbatim>\<open>Write\<close>, block after block; only the last block can be shorter and
  no block is empty. It stops at the first failed write and returns that error;
  otherwise it returns the error of the read, if there is one.

  What a stopped copy has not read of the body is skipped by the reader before its next
  read (\<^verbatim>\<open>closeDot\<close>, which \<^verbatim>\<open>ReadLine\<close> and \<^verbatim>\<open>DotReader\<close> call first), and nothing else
  reads from the reader in between. So the input after the copy is, in every case, what
  follows the terminating line.
\<close>

definition undot :: "string \<Rightarrow> string" where
  "undot l = (case l of [] \<Rightarrow> [] | c # cs \<Rightarrow> if c = CHR ''.'' then cs else l)"

text \<open>The decoded body, whether its terminating line was found, and the lines after it.\<close>

fun dot_body :: "string list \<Rightarrow> string \<times> bool \<times> string list" where
  "dot_body [] = ([], False, [])"
| "dot_body (l # ls) =
     (if l = ''.'' then ([], True, ls)
      else (case dot_body ls of (body, terminated, rest) \<Rightarrow>
              (undot l @ [CHR 0x0A] @ body, terminated, rest)))"

definition blockSize :: nat where
  "blockSize = 32768"

function blocks :: "string \<Rightarrow> string list" where
  "blocks body = (if body = [] then [] else take blockSize body # blocks (drop blockSize body))"
  by pat_completeness auto
termination
  by (relation "measure length") (auto simp: blockSize_def)

declare blocks.simps [simp del]

fun write_blocks ::
  "'w handlers \<Rightarrow> ref option \<Rightarrow> string list \<Rightarrow> 'w \<Rightarrow> error option outcome \<times> 'w" where
  "write_blocks H wc [] w = (Return None, w)"
| "write_blocks H wc (b # bs) w =
     (case wc of
        None \<Rightarrow> (Panic nil_dereference, w)
      | Some d \<Rightarrow>
          (case Write H d b w of
             (Some e, w1) \<Rightarrow> (Return (Some e), w1)
           | (None, w1) \<Rightarrow> write_blocks H wc bs w1))"

definition io_Copy :: "'w handlers \<Rightarrow> ref option \<Rightarrow> 'w session \<Rightarrow> error option outcome \<times> 'w session" where
  "io_Copy H wc s =
     (case dot_body (rx (conn s)) of
        (body, terminated, rest) \<Rightarrow>
          (case write_blocks H wc (blocks body) (ext s) of
             (Return None, w) \<Rightarrow>
               (if terminated then Return None else Return (Some (OtherError ''unexpected EOF'')),
                s\<lparr>conn := (conn s)\<lparr>rx := rest\<rparr>, ext := w\<rparr>)
           | (r, w) \<Rightarrow> (r, s\<lparr>conn := (conn s)\<lparr>rx := rest\<rparr>, ext := w\<rparr>)))"

definition handleDATA :: "'w handlers \<Rightarrow> 'w operationHandler" where
  "handleDATA H s cmd =
     (case mHandler s of
        None \<Rightarrow> (Return (Some ErrBadSequence), s)
      | Some m \<Rightarrow>
          (case GetDataWriter H m (ext s) of
             (Inl e, w) \<Rightarrow> (Return (Some e), s\<lparr>ext := w\<rparr>)
           | (Inr writeCloser, w) \<Rightarrow>
               (case PrintfLine
                       (fmt_d StatusStartMailInput @ '' Go ahead. End your data with <CR><LF>.<CR><LF>'')
                       (s\<lparr>ext := w\<rparr>) of
                  (Some e, s1) \<Rightarrow> (Return (Some e), s1)
                | (None, s1) \<Rightarrow>
                    (case io_Copy H writeCloser s1 of
                       (Panic p, s2) \<Rightarrow> (Panic p, s2)
                     | (Return (Some e), s2) \<Rightarrow> (Return (Some e), s2)
                     | (Return None, s2) \<Rightarrow>
                         (case writeCloser of
                            None \<Rightarrow> (Panic nil_dereference, s2)
                          | Some d \<Rightarrow>
                              (case Close H d (ext s2) of
                                 (Some e, w3) \<Rightarrow> (Return (Some e), s2\<lparr>ext := w3\<rparr>)
                               | (None, w3) \<Rightarrow>
                                   (Return (Some ThankYou), s2\<lparr>ext := w3, mHandler := None\<rparr>)))))))"

subsection \<open>AUTH\<close>

definition authLOGIN :: "'w handlers \<Rightarrow> 'w operationHandler" where
  "authLOGIN H s cmd =
     (case PrintfLine (fmt_d StatusProvideCredentials @ '' VXNlcm5hbWU6'') s of
        (Some e, s1) \<Rightarrow> (Return (Some e), s1)
      | (None, s1) \<Rightarrow>
          (case ReadLine s1 of
             (Inl e, s2) \<Rightarrow> (Return (Some e), s2)
           | (Inr line1, s2) \<Rightarrow>
               (case DecodeString line1 of
                  None \<Rightarrow> (Return (Some ErrDecodingCredentials), s2)
                | Some byteUsername \<Rightarrow>
                    (case PrintfLine (fmt_d StatusProvideCredentials @ '' UGFzc3dvcmQ6'') s2 of
                       (Some e, s3) \<Rightarrow> (Return (Some e), s3)
                     | (None, s3) \<Rightarrow>
                         (case ReadLine s3 of
                            (Inl e, s4) \<Rightarrow> (Return (Some e), s4)
                          | (Inr line2, s4) \<Rightarrow>
                              (case DecodeString line2 of
                                 None \<Rightarrow> (Return (Some ErrDecodingCredentials), s4)
                               | Some bytePassword \<Rightarrow>
                                   (case sHandler s4 of
                                      None \<Rightarrow> (Panic nil_dereference, s4)
                                    | Some h \<Rightarrow>
                                        (case Authenticate H h byteUsername bytePassword (ext s4) of
                                           (e, w) \<Rightarrow> (Return e, s4\<lparr>ext := w\<rparr>)))))))))"

text \<open>The first statement of \<^verbatim>\<open>authPLAIN\<close>: where the payload comes from.\<close>

definition plain_payload :: "'w session \<Rightarrow> command \<Rightarrow> (error + string) \<times> 'w session" where
  "plain_payload s cmd =
     (if length (cfields cmd) < 3 then
        (case PrintfLine (fmt_d StatusProvideCredentials @ '' Give me your credentials'') s of
           (Some e, s1) \<Rightarrow> (Inl e, s1)
         | (None, s1) \<Rightarrow> ReadLine s1)
      else (Inr (cfields cmd ! 2), s))"

definition authPLAIN :: "'w handlers \<Rightarrow> 'w operationHandler" where
  "authPLAIN H s cmd =
     (case plain_payload s cmd of
        (Inl e, s1) \<Rightarrow> (Return (Some e), s1)
      | (Inr auth, s1) \<Rightarrow>
          (case DecodeString auth of
             None \<Rightarrow> (Return (Some ErrDecodingCredentials), s1)
           | Some data \<Rightarrow>
               (let parts = Split data (CHR 0x00) in
                if length parts \<noteq> 3 then (Return (Some ErrDecodingCredentials), s1)
                else
                  (case sHandler s1 of
                     None \<Rightarrow> (Panic nil_dereference, s1)
                   | Some h \<Rightarrow>
                       (case Authenticate H h (parts ! 1) (parts ! 2) (ext s1) of
                          (e, w) \<Rightarrow> (Return e, s1\<lparr>ext := w\<rparr>))))))"

definition authMap :: "'w handlers \<Rightarrow> string \<Rightarrow> 'w operationHandler option" where
  "authMap H = map_of [(''LOGIN'', authLOGIN H), (''PLAIN'', authPLAIN H)]"

definition handleAUTH :: "'w handlers \<Rightarrow> 'w operationHandler" where
  "handleAUTH H s cmd =
     (if \<not> gotHelo s then (Return (Some ErrNoHelo), s)
      else if length (cfields cmd) < 2 then (Return (Some ErrInvalidSyntax), s)
      else
        (case authMap H (ToUpper (cfields cmd ! 1)) of
           None \<Rightarrow>
             (Return (Some (NewReportableStatus StatusCommandNotImplemented
                              ''Unknown authentication mechanism'')), s)
         | Some act \<Rightarrow> act s cmd))"

subsection \<open>The command loop\<close>

definition operationHandlers ::
  "'w Server \<Rightarrow> 'w handlers \<Rightarrow> mail_parser \<Rightarrow> string \<Rightarrow> 'w operationHandler option" where
  "operationHandlers srv H mail_ParseAddress =
     map_of
       [(''AUTH'', handleAUTH H),
        (''DATA'', handleDATA H),
        (''EHLO'', handleEHLO srv H),
        (''HELO'', handleHELO H),
        (''MAIL'', handleMAIL srv H mail_ParseAddress),
        (''NOOP'', handleNOOP),
        (''QUIT'', handleQUIT),
        (''RCPT'', handleRCPT H mail_ParseAddress),
        (''RSET'', handleRSET),
        (''STARTTLS'', handleSTARTTLS srv)]"

definition serveOne ::
  "'w Server \<Rightarrow> 'w handlers \<Rightarrow> mail_parser \<Rightarrow> 'w session \<Rightarrow> unit outcome \<times> 'w session" where
  "serveOne srv H mail_ParseAddress s =
     (case SetReadDeadline s of
        Some e \<Rightarrow> handleError H (Some e) s
      | None \<Rightarrow>
          (case ReadLine s of
             (Inl e, s1) \<Rightarrow> handleError H (Some e) s1
           | (Inr l, s1) \<Rightarrow>
               (let cmd = parseLine l in
                case operationHandlers srv H mail_ParseAddress (action cmd) of
                  None \<Rightarrow>
                    handleError H
                      (Some (NewReportableStatus StatusCommandNotImplemented ''Unsupported command''))
                      s1
                | Some act \<Rightarrow>
                    (case act s1 cmd of
                       (Panic p, s2) \<Rightarrow> (Panic p, s2)
                     | (Return e, s2) \<Rightarrow> handleError H e s2))))"

definition closeOrReport :: "'w handlers \<Rightarrow> 'w session \<Rightarrow> unit outcome \<times> 'w session" where
  "closeOrReport H s =
     (case conn_close (conn s) of
        (None, c) \<Rightarrow> (Return (), s\<lparr>conn := c\<rparr>)
      | (Some t, c) \<Rightarrow>
          (case sHandler s of
             None \<Rightarrow> (Panic nil_dereference, s\<lparr>conn := c\<rparr>)
           | Some h \<Rightarrow>
               (Return (), s\<lparr>conn := c, ext := HandleSessionError H h (OtherError t) (ext s)\<rparr>)))"

text \<open>
  The loop of \<^verbatim>\<open>serve\<close>: \<^verbatim>\<open>for { if s.keepGoing { s.serveOne() } }\<close>. It has no exit
  of its own; a panic of \<^verbatim>\<open>serveOne\<close> is the only way out. Not returning is \<open>None\<close>.
\<close>

partial_function (option) serve_loop ::
  "'w Server \<Rightarrow> 'w handlers \<Rightarrow> mail_parser \<Rightarrow> 'w session \<Rightarrow> (string \<times> 'w session) option" where
  "serve_loop srv H mail_ParseAddress s =
     (if keepGoing s then
        (case serveOne srv H mail_ParseAddress s of
           (Panic p, s1) \<Rightarrow> Some (p, s1)
         | (Return u, s1) \<Rightarrow> serve_loop srv H mail_ParseAddress s1)
      else serve_loop srv H mail_ParseAddress s)"

text \<open>
  \<^verbatim>\<open>serve\<close>. The deferred \<^verbatim>\<open>closeOrReport\<close> runs when the function returns and when it
  panics; a panic of the deferred call replaces the one under way.
\<close>

definition serve ::
  "'w Server \<Rightarrow> 'w handlers \<Rightarrow> mail_parser \<Rightarrow> 'w session \<Rightarrow> (unit outcome \<times> 'w session) option" where
  "serve srv H mail_ParseAddress s =
     (case PrintfLine (fmt_d StatusServiceReady @ '' '' @ Hostname srv @ '' ESMTP ready'') s of
        (Some e, s1) \<Rightarrow>
          (case sHandler s1 of
             None \<Rightarrow>
               (case closeOrReport H s1 of
                  (Panic q, s2) \<Rightarrow> Some (Panic q, s2)
                | (Return u, s2) \<Rightarrow> Some (Panic nil_dereference, s2))
           | Some h \<Rightarrow> Some (closeOrReport H (s1\<lparr>ext := HandleSessionError H h e (ext s1)\<rparr>)))
      | (None, s1) \<Rightarrow>
          (case serve_loop srv H mail_ParseAddress s1 of
             None \<Rightarrow> None
           | Some (p, s2) \<Rightarrow>
               (case closeOrReport H s2 of
                  (Panic q, s3) \<Rightarrow> Some (Panic q, s3)
                | (Return u, s3) \<Rightarrow> Some (Panic p, s3))))"

section \<open>Sample collaborators and sessions\<close>

text \<open>
  Concrete collaborators on which the theorems below are exercised. Their shared state
  is the log of the calls made so far. The sample policy handler accepts every greeting
  but \<^verbatim>\<open>localhost\<close>,
  authenticates \<^verbatim>\<open>alice\<close> with \<^verbatim>\<open>secret\<close> only, and hands out message handler 1, whose
  data sink is object 2. The sample address parser stands in for \<^verbatim>\<open>mail.ParseAddress\<close>
  on bracketed addresses without display name or comment.
\<close>

definition sample_handlers :: "string list handlers" where
  "sample_handlers =
     \<lparr>Authenticate = (\<lambda>h u p w.
        (if u = ''alice'' \<and> p = ''secret'' then Some AuthSuccess
         else Some (ReportableStatus 535 ''Authentication failed''),
         w @ [''Authenticate '' @ u @ '' '' @ p])),
      GetMessageHandler = (\<lambda>h from w. (Inr (Some 1), w @ [''GetMessageHandler '' @ from])),
      HandleHELO = (\<lambda>h name extended w.
        (if name = ''localhost'' then Some (ReportableStatus 550 ''Who are you?'') else None,
         w @ [''HandleHELO '' @ name])),
      HandleSessionError = (\<lambda>h e w. w @ [''HandleSessionError'']),
      MaxMessageSize = (\<lambda>h w. (1024, w)),
      AddRecipient = (\<lambda>m r w. (None, w @ [''AddRecipient '' @ r])),
      GetDataWriter = (\<lambda>m w. (Inr (Some 2), w @ [''GetDataWriter''])),
      Write = (\<lambda>d b w. (None, w @ [''Write'', b])),
      Close = (\<lambda>d w. (None, w @ [''Close'']))\<rparr>"

definition sample_parser :: mail_parser where
  "sample_parser src =
     (if HasPrefix src ''<'' \<and> HasSuffix src ''>'' \<and> CHR ''@'' \<in> set src \<and> \<not> (\<exists>c \<in> set src. isSpace c)
      then Some \<lparr>Name = [], Address = butlast (tl src)\<rparr> else None)"

definition sample_server :: "string list Server" where
  "sample_server =
     \<lparr>Hostname = ''mx.example.org'',
      OnNewConnection = (\<lambda>peer tls w. (Inr (Some 7), w @ [''OnNewConnection '' @ peer])),
      RequireAuth = True,
      RequireTLS = False,
      Timeout = 30000000000,
      TLSConfig = Some ''certificate''\<rparr>"

definition sample_conn :: "string list \<Rightarrow> conn" where
  "sample_conn input =
     \<lparr>rx = input, tx = [], tx_left = None, deadline_err = None, close_err = None,
      peer = ''192.0.2.1:40000'', tls_server = False, is_closed = False\<rparr>"

definition sample_session :: "string list \<Rightarrow> string list session" where
  "sample_session input = newSession (Some 0) (sample_conn input) False []"

text \<open>A session in the middle of a mail transaction: greeted, with message handler 1 active.\<close>

definition mid_transaction :: "string list session" where
  "mid_transaction = (sample_session [])\<lparr>mHandler := Some 1, gotHelo := True\<rparr>"

section \<open>Successful writes\<close>

text \<open>
  \<open>writes_ok k c\<close>: the next \<open>k\<close> writes to the connection succeed. \<open>wrote ls c\<close>: the
  connection after the lines \<open>ls\<close> have been written to it.
\<close>

definition writes_ok :: "nat \<Rightarrow> conn \<Rightarrow> bool" where
  "writes_ok k c = (case tx_left c of None \<Rightarrow> True | Some n \<Rightarrow> k \<le> n)"

definition wrote :: "string list \<Rightarrow> conn \<Rightarrow> conn" where
  "wrote ls c = c\<lparr>tx := tx c @ ls, tx_left := map_option (\<lambda>n. n - length ls) (tx_left c)\<rparr>"

text \<open>A greeted session on a connection that still holds the given input.\<close>

definition greeted :: "string list \<Rightarrow> string list session" where
  "greeted input = (sample_session input)\<lparr>gotHelo := True\<rparr>"

text \<open>
  A session with message handler 1 active, and collaborators whose data sink fails to
  close.
\<close>

definition in_transaction :: "string list \<Rightarrow> string list session" where
  "in_transaction input = (sample_session input)\<lparr>mHandler := Some 1, gotHelo := True\<rparr>"

definition full_disk_handlers :: "string list handlers" where
  "full_disk_handlers =
     sample_handlers\<lparr>Close := (\<lambda>d w. (Some (ReportableStatus 452 ''Disk full''), w @ [''Close'']))\<rparr>"

text \<open>Collaborators whose message handler has no data sink to give.\<close>

definition no_sink_handlers :: "string list handlers" where
  "no_sink_handlers =
     sample_handlers\<lparr>GetDataWriter :=
       (\<lambda>m w. (Inl (ReportableStatus 451 ''No storage''), w @ [''GetDataWriter'']))\<rparr>"

text \<open>A session with message handler 1 active on a connection that takes no more writes.\<close>

definition in_transaction_mute :: "string list \<Rightarrow> string list session" where
  "in_transaction_mute input =
     (in_transaction input)\<lparr>conn := (sample_conn input)\<lparr>tx_left := Some 0\<rparr>\<rparr>"

text \<open>Collaborators whose data sink refuses what is written to it.\<close>

definition full_sink_handlers :: "string list handlers" where
  "full_sink_handlers =
     sample_handlers\<lparr>Write :=
       (\<lambda>d b w. (Some (ReportableStatus 552 ''Too much data''), w @ [''Write'']))\<rparr>"

section \<open>Collected definitions\<close>

lemmas status_defs =
  StatusServiceReady_def StatusServiceClosing_def StatusAuthenticated_def StatusOK_def
  StatusProvideCredentials_def StatusStartMailInput_def StatusSyntaxError_def
  StatusCommandNotImplemented_def StatusBadSequence_def

lemmas named_status_defs =
  NewReportableStatus_def AuthSuccess_def GoAhead_def ThankYou_def ErrBadSequence_def
  ErrDecodingCredentials_def ErrInvalidSyntax_def ErrMalformedEmail_def ErrNoHelo_def

lemmas sample_defs =
  sample_handlers_def sample_server_def sample_conn_def sample_session_def sample_parser_def
  newSession_def

section \<open>What the writes leave alone\<close>

lemma PrintfLine_mHandler: "mHandler (snd (PrintfLine l s)) = mHandler s"
  by (simp add: PrintfLine_def split: prod.splits)

lemma write_lines_mHandler: "mHandler (snd (write_lines ls s)) = mHandler s"
proof (induction ls arbitrary: s)
  case Nil
  show ?case by simp
next
  case (Cons l ls)
  show ?case
  proof (cases "PrintfLine l s")
    case (Pair e s1)
    with PrintfLine_mHandler [of l s] have m: "mHandler s1 = mHandler s" by simp
    show ?thesis
    proof (cases e)
      case None
      with Pair m Cons.IH [of s1] show ?thesis by simp
    next
      case (Some a)
      with Pair m show ?thesis by simp
    qed
  qed
qed

lemma extensions_mHandler: "mHandler (snd (extensions srv H s)) = mHandler s"
  by (simp add: extensions_def Let_def split: option.splits prod.splits)

lemma handleEHLO_clears:
  assumes "2 \<le> length (cfields cmd)"
  shows "mHandler (snd (handleEHLO srv H s cmd)) = None"
proof (cases "sHandler s")
  case None
  with assms show ?thesis by (simp add: handleEHLO_def Let_def)
next
  case (Some h)
  obtain r w where hh: "HandleHELO H h (cfields cmd ! 1) True (ext s) = (r, w)"
    by (cases "HandleHELO H h (cfields cmd ! 1) True (ext s)")
  show ?thesis
  proof (cases r)
    case (Some e)
    with assms \<open>sHandler s = Some h\<close> hh show ?thesis
      by (simp add: handleEHLO_def Let_def)
  next
    case None
    let ?s1 = "s\<lparr>mHandler := None, ext := w\<rparr>"
    obtain x s2 where ex: "extensions srv H ?s1 = (x, s2)"
      by (cases "extensions srv H ?s1")
    from extensions_mHandler [of srv H ?s1] ex have m2: "mHandler s2 = None" by simp
    show ?thesis
    proof (cases x)
      case (Panic p)
      with assms \<open>sHandler s = Some h\<close> hh None ex m2 show ?thesis
        by (simp add: handleEHLO_def Let_def)
    next
      case (Return exts)
      let ?ls = "if length exts > 1 then map (\<lambda>ext. fmt_d StatusOK @ ''-'' @ ext) (butlast exts) else []"
      obtain e3 s3 where wl: "write_lines ?ls s2 = (e3, s3)"
        by (cases "write_lines ?ls s2")
      from write_lines_mHandler [of ?ls s2] wl m2 have m3: "mHandler s3 = None" by simp
      from assms \<open>sHandler s = Some h\<close> hh None ex Return wl m3 show ?thesis
        by (cases e3) (simp_all add: handleEHLO_def Let_def)
    qed
  qed
qed

section \<open>Writes that succeed, and the dispatch of one command\<close>

lemma fmt_d_codes:
  "fmt_d StatusOK = ''250''" "fmt_d StatusServiceClosing = ''221''"
  "fmt_d StatusProvideCredentials = ''334''" "fmt_d StatusStartMailInput = ''354''"
  "fmt_d StatusServiceReady = ''220''" "fmt_d 501 = ''501''" "fmt_d 502 = ''502''"
  "fmt_d 503 = ''503''" "fmt_d 250 = ''250''" "fmt_d 221 = ''221''"
  by code_simp+

lemma wrote_Nil: "wrote [] c = c"
  by (cases "tx_left c") (simp_all add: wrote_def)

lemma wrote_wrote: "wrote ls (wrote ks c) = wrote (ks @ ls) c"
  by (cases "tx_left c") (simp_all add: wrote_def)

lemma writes_ok_wrote: "writes_ok (length ls + k) c \<Longrightarrow> writes_ok k (wrote ls c)"
  by (cases "tx_left c") (simp_all add: writes_ok_def wrote_def)

lemma writes_ok_less: "writes_ok k c \<Longrightarrow> j \<le> k \<Longrightarrow> writes_ok j c"
  by (cases "tx_left c") (simp_all add: writes_ok_def)

lemma PrintfLine_ok:
  assumes "writes_ok (Suc k) (conn s)"
  shows "PrintfLine l s = (None, s\<lparr>conn := wrote [l] (conn s)\<rparr>)"
proof (cases "tx_left (conn s)")
  case None
  then show ?thesis by (simp add: PrintfLine_def conn_write_def wrote_def)
next
  case (Some n)
  with assms obtain m where "n = Suc m" by (cases n) (simp_all add: writes_ok_def)
  with Some show ?thesis by (simp add: PrintfLine_def conn_write_def wrote_def)
qed

lemma write_lines_ok:
  "writes_ok (length ls + k) (conn s) \<Longrightarrow> write_lines ls s = (None, s\<lparr>conn := wrote ls (conn s)\<rparr>)"
proof (induction ls arbitrary: s)
  case Nil
  show ?case by (simp add: wrote_Nil)
next
  case (Cons l ls)
  from Cons.prems have w1: "writes_ok (Suc (length ls + k)) (conn s)" by simp
  from PrintfLine_ok [OF w1] have p: "PrintfLine l s = (None, s\<lparr>conn := wrote [l] (conn s)\<rparr>)" .
  from writes_ok_wrote [of "[l]" "length ls + k" "conn s"] Cons.prems
  have w2: "writes_ok (length ls + k) (conn (s\<lparr>conn := wrote [l] (conn s)\<rparr>))" by simp
  from Cons.IH [OF w2] p show ?case by (simp add: wrote_wrote)
qed

lemma handleError_reportable_ok:
  assumes "writes_ok (Suc k) (conn s)"
  shows "handleError H (Some (ReportableStatus code msg)) s =
           (Return (), s\<lparr>conn := wrote [fmt_d code @ '' '' @ msg] (conn s)\<rparr>)"
  using PrintfLine_ok [OF assms, of "fmt_d code @ '' '' @ msg"] by (simp add: handleError_def)

lemma serveOne_dispatch:
  assumes rx: "rx (conn s) = l # rest"
    and dl: "deadline_err (conn s) = None"
    and op: "operationHandlers srv H mp (action (parseLine l)) = Some act"
  shows "serveOne srv H mp s =
           (case act (s\<lparr>conn := (conn s)\<lparr>rx := rest\<rparr>\<rparr>) (parseLine l) of
              (Panic p, s2) \<Rightarrow> (Panic p, s2)
            | (Return e, s2) \<Rightarrow> handleError H e s2)"
  using assms by (simp add: serveOne_def SetReadDeadline_def ReadLine_def Let_def)

lemma operationHandlers_simps:
  "operationHandlers srv H mp ''EHLO'' = Some (handleEHLO srv H)"
  "operationHandlers srv H mp ''HELO'' = Some (handleHELO H)"
  "operationHandlers srv H mp ''MAIL'' = Some (handleMAIL srv H mp)"
  "operationHandlers srv H mp ''RCPT'' = Some (handleRCPT H mp)"
  "operationHandlers srv H mp ''QUIT'' = Some handleQUIT"
  "operationHandlers srv H mp ''STARTTLS'' = Some (handleSTARTTLS srv)"
  "operationHandlers srv H mp ''DATA'' = Some (handleDATA H)"
  "operationHandlers srv H mp ''AUTH'' = Some (handleAUTH H)"
  by (simp_all add: operationHandlers_def)

section \<open>Writes that may fail\<close>

lemma PrintfLine_result:
  "PrintfLine l s = (None, s\<lparr>conn := wrote [l] (conn s)\<rparr>) \<or>
   (\<exists>t. PrintfLine l s = (Some (OtherError t), s))"
proof (cases "tx_left (conn s)")
  case None
  then show ?thesis by (simp add: PrintfLine_def conn_write_def wrote_def)
next
  case (Some n)
  then show ?thesis by (cases n) (simp_all add: PrintfLine_def conn_write_def wrote_def)
qed

lemma write_lines_result:
  "write_lines ls s = (None, s\<lparr>conn := wrote ls (conn s)\<rparr>) \<or>
   (\<exists>k t. k < length ls \<and>
      write_lines ls s = (Some (OtherError t), s\<lparr>conn := wrote (take k ls) (conn s)\<rparr>))"
proof (induction ls arbitrary: s)
  case Nil
  show ?case by (simp add: wrote_Nil)
next
  case (Cons l ls)
  from PrintfLine_result [of l s] show ?case
  proof
    assume p: "PrintfLine l s = (None, s\<lparr>conn := wrote [l] (conn s)\<rparr>)"
    let ?s1 = "s\<lparr>conn := wrote [l] (conn s)\<rparr>"
    from Cons.IH [of ?s1] show ?thesis
    proof
      assume "write_lines ls ?s1 = (None, ?s1\<lparr>conn := wrote ls (conn ?s1)\<rparr>)"
      with p show ?thesis by (simp add: wrote_wrote)
    next
      assume "\<exists>k t. k < length ls \<and>
        write_lines ls ?s1 = (Some (OtherError t), ?s1\<lparr>conn := wrote (take k ls) (conn ?s1)\<rparr>)"
      then obtain k t where k: "k < length ls"
        and w: "write_lines ls ?s1 = (Some (OtherError t), ?s1\<lparr>conn := wrote (take k ls) (conn ?s1)\<rparr>)"
        by blast
      from p w have "write_lines (l # ls) s =
          (Some (OtherError t), s\<lparr>conn := wrote (take (Suc k) (l # ls)) (conn s)\<rparr>)"
        by (simp add: wrote_wrote)
      with k have "Suc k < length (l # ls) \<and> write_lines (l # ls) s =
          (Some (OtherError t), s\<lparr>conn := wrote (take (Suc k) (l # ls)) (conn s)\<rparr>)"
        by simp
      then show ?thesis by blast
    qed
  next
    assume "\<exists>t. PrintfLine l s = (Some (OtherError t), s)"
    then obtain t where "PrintfLine l s = (Some (OtherError t), s)" ..
    then have "0 < length (l # ls) \<and> write_lines (l # ls) s =
        (Some (OtherError t), s\<lparr>conn := wrote (take 0 (l # ls)) (conn s)\<rparr>)"
      by (simp add: wrote_Nil)
    then show ?thesis by blast
  qed
qed

lemma reportFatal_conn: "conn (snd (reportFatal H e s)) = conn s"
  by (simp add: reportFatal_def Let_def split: option.splits)

lemma handleError_fatal_conn: "conn (snd (handleError H (Some (OtherError t)) s)) = conn s"
  by (simp add: handleError_def reportFatal_conn)

lemma handleError_reportable_conn:
  "conn (snd (handleError H (Some (ReportableStatus code msg)) s)) = conn s \<or>
   conn (snd (handleError H (Some (ReportableStatus code msg)) s)) =
     wrote [fmt_d code @ '' '' @ msg] (conn s)"
  using PrintfLine_result [of "fmt_d code @ '' '' @ msg" s]
  by (auto simp: handleError_def reportFatal_conn)

lemma tx_wrote: "tx (wrote ls c) = tx c @ ls"
  by (simp add: wrote_def)

section \<open>DATA\<close>

lemma blocks_Nil: "blocks [] = []"
  by (simp add: blocks.simps)

lemma blocks_short: "body \<noteq> [] \<Longrightarrow> length body \<le> blockSize \<Longrightarrow> blocks body = [body]"
  by (subst blocks.simps) (simp add: blocks_Nil)

lemma io_Copy_mHandler: "io_Copy H wc s = (r, s2) \<Longrightarrow> mHandler s2 = mHandler s"
  by (auto simp: io_Copy_def split: prod.splits outcome.splits option.splits if_splits)

lemma PrintfLine_keeps_mHandler: "PrintfLine l s = (e, s1) \<Longrightarrow> mHandler s1 = mHandler s"
  using PrintfLine_mHandler [of l s] by simp

lemma handleDATA_cases:
  assumes act: "mHandler s = Some m"
  shows
    "(\<exists>e w. GetDataWriter H m (ext s) = (Inl e, w) \<and>
        handleDATA H s cmd = (Return (Some e), s\<lparr>ext := w\<rparr>)) \<or>
     (\<exists>wc w e s1. GetDataWriter H m (ext s) = (Inr wc, w) \<and>
        PrintfLine ''354 Go ahead. End your data with <CR><LF>.<CR><LF>'' (s\<lparr>ext := w\<rparr>) = (Some e, s1) \<and>
        handleDATA H s cmd = (Return (Some e), s1) \<and> mHandler s1 = Some m) \<or>
     (\<exists>wc w s1 r s2. GetDataWriter H m (ext s) = (Inr wc, w) \<and>
        PrintfLine ''354 Go ahead. End your data with <CR><LF>.<CR><LF>'' (s\<lparr>ext := w\<rparr>) = (None, s1) \<and>
        io_Copy H wc s1 = (r, s2) \<and> r \<noteq> Return None \<and>
        handleDATA H s cmd = (r, s2) \<and> mHandler s2 = Some m) \<or>
     (\<exists>w s1 s2. GetDataWriter H m (ext s) = (Inr None, w) \<and>
        PrintfLine ''354 Go ahead. End your data with <CR><LF>.<CR><LF>'' (s\<lparr>ext := w\<rparr>) = (None, s1) \<and>
        io_Copy H None s1 = (Return None, s2) \<and>
        handleDATA H s cmd = (Panic nil_dereference, s2) \<and> mHandler s2 = Some m) \<or>
     (\<exists>d w s1 s2 e w3. GetDataWriter H m (ext s) = (Inr (Some d), w) \<and>
        PrintfLine ''354 Go ahead. End your data with <CR><LF>.<CR><LF>'' (s\<lparr>ext := w\<rparr>) = (None, s1) \<and>
        io_Copy H (Some d) s1 = (Return None, s2) \<and> Close H d (ext s2) = (Some e, w3) \<and>
        handleDATA H s cmd = (Return (Some e), s2\<lparr>ext := w3\<rparr>) \<and> mHandler s2 = Some m) \<or>
     (\<exists>d w s1 s2 w3. GetDataWriter H m (ext s) = (Inr (Some d), w) \<and>
        PrintfLine ''354 Go ahead. End your data with <CR><LF>.<CR><LF>'' (s\<lparr>ext := w\<rparr>) = (None, s1) \<and>
        io_Copy H (Some d) s1 = (Return None, s2) \<and> Close H d (ext s2) = (None, w3) \<and>
        handleDATA H s cmd =
          (Return (Some (ReportableStatus 250 ''Thank you'')), s2\<lparr>ext := w3, mHandler := None\<rparr>))"
proof -
  let ?l = "''354 Go ahead. End your data with <CR><LF>.<CR><LF>''"
  have l: "fmt_d StatusStartMailInput @ '' Go ahead. End your data with <CR><LF>.<CR><LF>'' = ?l"
    by (simp add: fmt_d_codes)
  obtain g w where G: "GetDataWriter H m (ext s) = (g, w)"
    by (cases "GetDataWriter H m (ext s)")
  show ?thesis
  proof (cases g)
    case (Inl e)
    with act G have "handleDATA H s cmd = (Return (Some e), s\<lparr>ext := w\<rparr>)"
      by (simp add: handleDATA_def)
    with G Inl show ?thesis by simp
  next
    case (Inr wc)
    obtain p s1 where P: "PrintfLine ?l (s\<lparr>ext := w\<rparr>) = (p, s1)"
      by (cases "PrintfLine ?l (s\<lparr>ext := w\<rparr>)")
    from PrintfLine_keeps_mHandler [OF P] act have m1: "mHandler s1 = Some m" by simp
    show ?thesis
    proof (cases p)
      case (Some e)
      with act G Inr P have "handleDATA H s cmd = (Return (Some e), s1)"
        by (simp add: handleDATA_def l)
      with G Inr P Some m1 show ?thesis by simp
    next
      case None
      obtain r s2 where C: "io_Copy H wc s1 = (r, s2)"
        by (cases "io_Copy H wc s1")
      from io_Copy_mHandler [OF C] m1 have m2: "mHandler s2 = Some m" by simp
      show ?thesis
      proof (cases "r = Return None")
        case False
        with act G Inr P None C have "handleDATA H s cmd = (r, s2)"
          by (simp add: handleDATA_def l split: outcome.splits option.splits)
        with G Inr P None C False m2 show ?thesis by simp
      next
        case True
        show ?thesis
        proof (cases wc)
          case None': None
          with act G Inr P None C True have "handleDATA H s cmd = (Panic nil_dereference, s2)"
            by (simp add: handleDATA_def l)
          with G Inr P None C True None' m2 show ?thesis by simp
        next
          case (Some d)
          obtain c w3 where CL: "Close H d (ext s2) = (c, w3)"
            by (cases "Close H d (ext s2)")
          show ?thesis
          proof (cases c)
            case (Some e)
            with act G Inr P None C True \<open>wc = Some d\<close> CL
            have "handleDATA H s cmd = (Return (Some e), s2\<lparr>ext := w3\<rparr>)"
              by (simp add: handleDATA_def l)
            with G Inr P None C True \<open>wc = Some d\<close> CL Some m2 show ?thesis by simp
          next
            case None'': None
            with act G Inr P None C True \<open>wc = Some d\<close> CL
            have "handleDATA H s cmd =
              (Return (Some (ReportableStatus 250 ''Thank you'')), s2\<lparr>ext := w3, mHandler := None\<rparr>)"
              by (simp add: handleDATA_def l named_status_defs StatusOK_def)
            with G Inr P None C True \<open>wc = Some d\<close> CL None'' show ?thesis by simp
          qed
        qed
      qed
    qed
  qed
qed

lemmas data_eval =
  sample_defs in_transaction_def in_transaction_mute_def full_disk_handlers_def
  no_sink_handlers_def full_sink_handlers_def PrintfLine_def conn_write_def io_Copy_def undot_def blocks_short
  blocks_Nil blockSize_def wrote_def

text \<open>
  The claim C1 as stated, that the active message handler is cleared after every DATA
  phase, fails where the sink does not close: the error of \<^verbatim>\<open>Close\<close> is returned and
  the session still has message handler 1.
\<close>

theorem data_close_failure_counterexample:
  "mHandler (in_transaction [''Subject: hello'', ''.'']) = Some 1 \<and>
   fst (handleDATA full_disk_handlers (in_transaction [''Subject: hello'', ''.'']) (parseLine ''DATA'')) =
     Return (Some (ReportableStatus 452 ''Disk full'')) \<and>
   mHandler (snd (handleDATA full_disk_handlers (in_transaction [''Subject: hello'', ''.''])
                    (parseLine ''DATA''))) = Some 1 \<and>
   mHandler (snd (handleDATA full_disk_handlers (in_transaction [''Subject: hello'', ''.''])
                    (parseLine ''DATA''))) \<noteq> None"
  by (simp add: handleDATA_def data_eval fmt_d_codes)

text \<open>
  C1, as the code has it. For every DATA command issued with an active message handler,
  each failure is returned and leaves the active message handler in place: the failure
  to obtain the sink, of the write of the go-ahead, of the copy of the body into the
  sink, and of the sink's close. Only when the copy and the close both succeed is the
  active message handler cleared, and the reply is then \<^verbatim>\<open>250 Thank you\<close>. So after the
  command the message handler is either the one before or none, and it is none only
  after a successful copy and close.
\<close>

theorem data_clears_handler_on_success_only:
  assumes act: "mHandler s = Some m"
  shows
    "(mHandler (snd (handleDATA H s cmd)) = None \<or> mHandler (snd (handleDATA H s cmd)) = Some m) \<and>
     (mHandler (snd (handleDATA H s cmd)) = None \<longrightarrow>
        fst (handleDATA H s cmd) = Return (Some (ReportableStatus 250 ''Thank you'')) \<and>
        (\<exists>d w s1 s2 w3.
           GetDataWriter H m (ext s) = (Inr (Some d), w) \<and>
           PrintfLine ''354 Go ahead. End your data with <CR><LF>.<CR><LF>'' (s\<lparr>ext := w\<rparr>) = (None, s1) \<and>
           io_Copy H (Some d) s1 = (Return None, s2) \<and> Close H d (ext s2) = (None, w3))) \<and>
     (GetDataWriter H m (ext s) = (Inl e, w) \<longrightarrow>
        handleDATA H s cmd = (Return (Some e), s\<lparr>ext := w\<rparr>) \<and>
        mHandler (snd (handleDATA H s cmd)) = Some m) \<and>
     (GetDataWriter H m (ext s) = (Inr wc, w) \<and>
      PrintfLine ''354 Go ahead. End your data with <CR><LF>.<CR><LF>'' (s\<lparr>ext := w\<rparr>) = (Some e, s1) \<longrightarrow>
        handleDATA H s cmd = (Return (Some e), s1) \<and>
        mHandler (snd (handleDATA H s cmd)) = Some m) \<and>
     (GetDataWriter H m (ext s) = (Inr wc, w) \<and>
      PrintfLine ''354 Go ahead. End your data with <CR><LF>.<CR><LF>'' (s\<lparr>ext := w\<rparr>) = (None, s1) \<and>
      io_Copy H wc s1 = (Return (Some e), s2) \<longrightarrow>
        handleDATA H s cmd = (Return (Some e), s2) \<and>
        mHandler (snd (handleDATA H s cmd)) = Some m) \<and>
     (GetDataWriter H m (ext s) = (Inr (Some d), w) \<and>
      PrintfLine ''354 Go ahead. End your data with <CR><LF>.<CR><LF>'' (s\<lparr>ext := w\<rparr>) = (None, s1) \<and>
      io_Copy H (Some d) s1 = (Return None, s2) \<and> Close H d (ext s2) = (Some e, w3) \<longrightarrow>
        handleDATA H s cmd = (Return (Some e), s2\<lparr>ext := w3\<rparr>) \<and>
        mHandler (snd (handleDATA H s cmd)) = Some m) \<and>
     (GetDataWriter H m (ext s) = (Inr (Some d), w) \<and>
      PrintfLine ''354 Go ahead. End your data with <CR><LF>.<CR><LF>'' (s\<lparr>ext := w\<rparr>) = (None, s1) \<and>
      io_Copy H (Some d) s1 = (Return None, s2) \<and> Close H d (ext s2) = (None, w3) \<longrightarrow>
        handleDATA H s cmd =
          (Return (Some (ReportableStatus 250 ''Thank you'')), s2\<lparr>ext := w3, mHandler := None\<rparr>))"
proof -
  let ?l = "''354 Go ahead. End your data with <CR><LF>.<CR><LF>''"
  let ?X = "handleDATA H s cmd"
  note cases = handleDATA_cases [OF act, of H cmd]
  have c1: "mHandler (snd ?X) = None \<or> mHandler (snd ?X) = Some m"
    using cases act by (elim disjE exE conjE) auto
  have c2: "mHandler (snd ?X) = None \<longrightarrow>
        fst ?X = Return (Some (ReportableStatus 250 ''Thank you'')) \<and>
        (\<exists>d w s1 s2 w3.
           GetDataWriter H m (ext s) = (Inr (Some d), w) \<and>
           PrintfLine ?l (s\<lparr>ext := w\<rparr>) = (None, s1) \<and>
           io_Copy H (Some d) s1 = (Return None, s2) \<and> Close H d (ext s2) = (None, w3))"
    using cases act by (elim disjE exE conjE) auto
  have c3: "GetDataWriter H m (ext s) = (Inl e, w) \<longrightarrow>
        ?X = (Return (Some e), s\<lparr>ext := w\<rparr>) \<and> mHandler (snd ?X) = Some m"
    using cases act by (elim disjE exE conjE) auto
  have c4: "GetDataWriter H m (ext s) = (Inr wc, w) \<and> PrintfLine ?l (s\<lparr>ext := w\<rparr>) = (Some e, s1) \<longrightarrow>
        ?X = (Return (Some e), s1) \<and> mHandler (snd ?X) = Some m"
    using cases act by (elim disjE exE conjE) auto
  have c5: "GetDataWriter H m (ext s) = (Inr wc, w) \<and> PrintfLine ?l (s\<lparr>ext := w\<rparr>) = (None, s1) \<and>
      io_Copy H wc s1 = (Return (Some e), s2) \<longrightarrow>
        ?X = (Return (Some e), s2) \<and> mHandler (snd ?X) = Some m"
    using cases act by (elim disjE exE conjE) auto
  have c6: "GetDataWriter H m (ext s) = (Inr (Some d), w) \<and> PrintfLine ?l (s\<lparr>ext := w\<rparr>) = (None, s1) \<and>
      io_Copy H (Some d) s1 = (Return None, s2) \<and> Close H d (ext s2) = (Some e, w3) \<longrightarrow>
        ?X = (Return (Some e), s2\<lparr>ext := w3\<rparr>) \<and> mHandler (snd ?X) = Some m"
    using cases act by (elim disjE exE conjE) auto
  have c7: "GetDataWriter H m (ext s) = (Inr (Some d), w) \<and> PrintfLine ?l (s\<lparr>ext := w\<rparr>) = (None, s1) \<and>
      io_Copy H (Some d) s1 = (Return None, s2) \<and> Close H d (ext s2) = (None, w3) \<longrightarrow>
        ?X = (Return (Some (ReportableStatus 250 ''Thank you'')), s2\<lparr>ext := w3, mHandler := None\<rparr>)"
    using cases act by (elim disjE exE conjE) auto
  from c1 c2 c3 c4 c5 c6 c7 show ?thesis by (intro conjI)
qed

theorem data_clears_handler_on_success_only_witness:
  "mHandler (in_transaction [''Subject: hello'', ''.'']) = Some 1 \<and>
   mHandler (in_transaction_mute [''Subject: hello'', ''.'']) = Some 1 \<and>
   handleDATA no_sink_handlers (in_transaction [''Subject: hello'', ''.'']) (parseLine ''DATA'') =
     (Return (Some (ReportableStatus 451 ''No storage'')),
      (in_transaction [''Subject: hello'', ''.''])\<lparr>ext := [''GetDataWriter'']\<rparr>) \<and>
   handleDATA sample_handlers (in_transaction_mute [''Subject: hello'', ''.'']) (parseLine ''DATA'') =
     (Return (Some (OtherError ''write failed'')),
      (in_transaction_mute [''Subject: hello'', ''.''])\<lparr>ext := [''GetDataWriter'']\<rparr>) \<and>
   handleDATA full_sink_handlers (in_transaction [''Subject: hello'', ''.'']) (parseLine ''DATA'') =
     (Return (Some (ReportableStatus 552 ''Too much data'')),
      (in_transaction [])
        \<lparr>ext := [''GetDataWriter'', ''Write''],
         conn := wrote [''354 Go ahead. End your data with <CR><LF>.<CR><LF>'']
                   (conn (in_transaction []))\<rparr>) \<and>
   handleDATA full_disk_handlers (in_transaction [''Subject: hello'', ''.'']) (parseLine ''DATA'') =
     (Return (Some (ReportableStatus 452 ''Disk full'')),
      (in_transaction [])
        \<lparr>ext := [''GetDataWriter'', ''Write'', ''Subject: hello'' @ [CHR 0x0A], ''Close''],
         conn := wrote [''354 Go ahead. End your data with <CR><LF>.<CR><LF>'']
                   (conn (in_transaction []))\<rparr>) \<and>
   handleDATA sample_handlers (in_transaction [''Subject: hello'', ''.'']) (parseLine ''DATA'') =
     (Return (Some (ReportableStatus 250 ''Thank you'')),
      (in_transaction [])
        \<lparr>ext := [''GetDataWriter'', ''Write'', ''Subject: hello'' @ [CHR 0x0A], ''Close''],
         conn := wrote [''354 Go ahead. End your data with <CR><LF>.<CR><LF>'']
                   (conn (in_transaction [])),
         mHandler := None\<rparr>)"
proof -
  let ?l = "''354 Go ahead. End your data with <CR><LF>.<CR><LF>''"
  let ?S = "in_transaction [''Subject: hello'', ''.'']"
  let ?M = "in_transaction_mute [''Subject: hello'', ''.'']"
  let ?S1 = "?S\<lparr>ext := [''GetDataWriter''], conn := wrote [?l] (conn ?S)\<rparr>"
  let ?S2 = "(in_transaction [])
        \<lparr>ext := [''GetDataWriter'', ''Write'', ''Subject: hello'' @ [CHR 0x0A]],
         conn := wrote [?l] (conn (in_transaction []))\<rparr>"
  let ?W3 = "[''GetDataWriter'', ''Write'', ''Subject: hello'' @ [CHR 0x0A], ''Close'']"
  have act: "mHandler ?S = Some 1" and actM: "mHandler ?M = Some 1"
    by (simp_all add: data_eval)
  have sinkN: "GetDataWriter no_sink_handlers 1 (ext ?S) =
      (Inl (ReportableStatus 451 ''No storage''), [''GetDataWriter''])"
    by (simp add: data_eval)
  have sinkF: "GetDataWriter full_disk_handlers 1 (ext ?S) = (Inr (Some 2), [''GetDataWriter''])"
    by (simp add: data_eval)
  have sinkS: "GetDataWriter sample_handlers 1 (ext ?S) = (Inr (Some 2), [''GetDataWriter''])"
    by (simp add: data_eval)
  have sinkM: "GetDataWriter sample_handlers 1 (ext ?M) = (Inr (Some 2), [''GetDataWriter''])"
    by (simp add: data_eval)
  have pr: "PrintfLine ?l (?S\<lparr>ext := [''GetDataWriter'']\<rparr>) = (None, ?S1)"
    by (simp add: data_eval)
  have prM: "PrintfLine ?l (?M\<lparr>ext := [''GetDataWriter'']\<rparr>) =
      (Some (OtherError ''write failed''), ?M\<lparr>ext := [''GetDataWriter'']\<rparr>)"
    by (simp add: data_eval)
  have cpF: "io_Copy full_disk_handlers (Some 2) ?S1 = (Return None, ?S2)"
    by (simp add: data_eval)
  have cpS: "io_Copy sample_handlers (Some 2) ?S1 = (Return None, ?S2)"
    by (simp add: data_eval)
  have sinkW: "GetDataWriter full_sink_handlers 1 (ext ?S) = (Inr (Some 2), [''GetDataWriter''])"
    by (simp add: data_eval)
  have cpW: "io_Copy full_sink_handlers (Some 2) ?S1 =
      (Return (Some (ReportableStatus 552 ''Too much data'')),
       (in_transaction [])
         \<lparr>ext := [''GetDataWriter'', ''Write''],
          conn := wrote [?l] (conn (in_transaction []))\<rparr>)"
    by (simp add: data_eval)
  have clF: "Close full_disk_handlers 2 (ext ?S2) = (Some (ReportableStatus 452 ''Disk full''), ?W3)"
    by (simp add: data_eval)
  have clS: "Close sample_handlers 2 (ext ?S2) = (None, ?W3)"
    by (simp add: data_eval)
  note n = data_clears_handler_on_success_only [OF act, of no_sink_handlers "parseLine ''DATA''"
      "ReportableStatus 451 ''No storage''" "[''GetDataWriter'']"]
  from n sinkN
  have a: "handleDATA no_sink_handlers ?S (parseLine ''DATA'') =
     (Return (Some (ReportableStatus 451 ''No storage'')), ?S\<lparr>ext := [''GetDataWriter'']\<rparr>)"
    by simp
  note m = data_clears_handler_on_success_only [OF actM, of sample_handlers "parseLine ''DATA''"
      _ "[''GetDataWriter'']" "Some 2" "?M\<lparr>ext := [''GetDataWriter'']\<rparr>"]
  from m [THEN conjunct2, THEN conjunct2, THEN conjunct2, THEN conjunct1,
      of "OtherError ''write failed''"] sinkM prM
  have b: "handleDATA sample_handlers ?M (parseLine ''DATA'') =
     (Return (Some (OtherError ''write failed'')), ?M\<lparr>ext := [''GetDataWriter'']\<rparr>)"
    by simp
  note k = data_clears_handler_on_success_only [OF act, of full_sink_handlers "parseLine ''DATA''"]
  from k [THEN conjunct2, THEN conjunct2, THEN conjunct2, THEN conjunct2, THEN conjunct1,
      of "Some 2" "[''GetDataWriter'']" ?S1 "ReportableStatus 552 ''Too much data''"
      "(in_transaction [])
         \<lparr>ext := [''GetDataWriter'', ''Write''],
          conn := wrote [?l] (conn (in_transaction []))\<rparr>"]
    sinkW pr cpW
  have w: "handleDATA full_sink_handlers ?S (parseLine ''DATA'') =
     (Return (Some (ReportableStatus 552 ''Too much data'')),
      (in_transaction [])
         \<lparr>ext := [''GetDataWriter'', ''Write''],
          conn := wrote [?l] (conn (in_transaction []))\<rparr>)"
    by simp
  note f = data_clears_handler_on_success_only [OF act, of full_disk_handlers "parseLine ''DATA''"]
  from f [THEN conjunct2, THEN conjunct2, THEN conjunct2, THEN conjunct2, THEN conjunct2,
      THEN conjunct1, of 2 "[''GetDataWriter'']" ?S1 ?S2 "ReportableStatus 452 ''Disk full''" ?W3]
    sinkF pr cpF clF
  have c: "handleDATA full_disk_handlers ?S (parseLine ''DATA'') =
     (Return (Some (ReportableStatus 452 ''Disk full'')), ?S2\<lparr>ext := ?W3\<rparr>)"
    by simp
  note g = data_clears_handler_on_success_only [OF act, of sample_handlers "parseLine ''DATA''"]
  from g [THEN conjunct2, THEN conjunct2, THEN conjunct2, THEN conjunct2, THEN conjunct2,
      THEN conjunct2, of 2 "[''GetDataWriter'']" ?S1 ?S2 ?W3]
    sinkS pr cpS clS
  have d: "handleDATA sample_handlers ?S (parseLine ''DATA'') =
     (Return (Some (ReportableStatus 250 ''Thank you'')), ?S2\<lparr>ext := ?W3, mHandler := None\<rparr>)"
    by simp
  from act actM a b w c d show ?thesis by simp
qed

section \<open>The end of a session\<close>

text \<open>
  The loop of \<^verbatim>\<open>serve\<close> returns only through a panic of \<^verbatim>\<open>serveOne\<close>, and
  \<^verbatim>\<open>serveOne\<close> is called only while the session keeps going: once \<^verbatim>\<open>keepGoing\<close> is
  false the loop runs for ever.
\<close>

lemma serve_loop_returns_only_while_serving:
  assumes "serve_loop srv H mp s = Some y"
  shows "keepGoing s"
proof (rule serve_loop.raw_induct [where P = "\<lambda>srv H mp s y. keepGoing s", OF _ assms])
  fix loop :: "'a Server \<Rightarrow> 'a handlers \<Rightarrow> mail_parser \<Rightarrow> 'a session \<Rightarrow> (string \<times> 'a session) option"
    and srv H mp s y
  assume IH: "\<And>srv H mp s y. loop srv H mp s = Some y \<Longrightarrow> keepGoing s"
    and body: "(if keepGoing s
                then case serveOne srv H mp s of
                       (Return u, s1) \<Rightarrow> loop srv H mp s1
                     | (Panic p, s1) \<Rightarrow> Some (p, s1)
                else loop srv H mp s) = Some y"
  show "keepGoing s"
  proof (cases "keepGoing s")
    case True
    then show ?thesis .
  next
    case False
    with body have "loop srv H mp s = Some y" by simp
    then show ?thesis by (rule IH)
  qed
qed

lemma serve_loop_spins: "\<not> keepGoing s \<Longrightarrow> serve_loop srv H mp s = None"
  using serve_loop_returns_only_while_serving [of srv H mp s] by (cases "serve_loop srv H mp s") auto

lemma serve_loop_after_last_command:
  assumes "keepGoing s" "serveOne srv H mp s = (Return (), s1)" "\<not> keepGoing s1"
  shows "serve_loop srv H mp s = None"
  using assms serve_loop_spins [of s1 srv H mp] by (subst serve_loop.simps) simp

text \<open>
  C2 says that after QUIT the command loop exits, \<^verbatim>\<open>serve\<close> returns and the transport is
  closed. On the code: a client that sends QUIT gets the closing reply \<^verbatim>\<open>221 OK, bye\<close>
  and \<^verbatim>\<open>keepGoing\<close> is false, but \<^verbatim>\<open>serve\<close> does not return, so its deferred close of
  the transport never runs.
\<close>

theorem serve_never_returns_after_QUIT:
  "serveOne sample_server sample_handlers sample_parser
       ((sample_session [''QUIT''])
          \<lparr>conn := wrote [''220 mx.example.org ESMTP ready''] (conn (sample_session [''QUIT'']))\<rparr>) =
     (Return (),
      (sample_session [])
          \<lparr>conn := wrote [''220 mx.example.org ESMTP ready'', ''221 OK, bye''] (conn (sample_session [])),
           keepGoing := False\<rparr>) \<and>
   serve sample_server sample_handlers sample_parser (sample_session [''QUIT'']) = None"
proof -
  let ?S1 = "(sample_session [''QUIT''])
          \<lparr>conn := wrote [''220 mx.example.org ESMTP ready''] (conn (sample_session [''QUIT'']))\<rparr>"
  let ?S2 = "(sample_session [])
          \<lparr>conn := wrote [''220 mx.example.org ESMTP ready'', ''221 OK, bye''] (conn (sample_session [])),
           keepGoing := False\<rparr>"
  have g: "PrintfLine (fmt_d StatusServiceReady @ '' '' @ Hostname sample_server @ '' ESMTP ready'')
             (sample_session [''QUIT'']) = (None, ?S1)"
    by code_simp
  have q: "serveOne sample_server sample_handlers sample_parser ?S1 = (Return (), ?S2)"
    by code_simp
  have k: "keepGoing ?S1" "\<not> keepGoing ?S2"
    by code_simp+
  from serve_loop_after_last_command [OF k(1) q k(2)]
  have "serve_loop sample_server sample_handlers sample_parser ?S1 = None" .
  with g have "serve sample_server sample_handlers sample_parser (sample_session [''QUIT'']) = None"
    by (simp add: serve_def)
  with q show ?thesis by simp
qed

section \<open>MAIL and RCPT without a parameter\<close>

lemma handleMAIL_short_params:
  "gotHelo s \<Longrightarrow> \<not> (RequireTLS srv \<and> \<not> isTLS s) \<Longrightarrow> length (params cmd) < 2 \<Longrightarrow>
   handleMAIL srv H mp s cmd = (Panic index_out_of_range, s)"
  by (auto simp: handleMAIL_def)

lemma handleRCPT_short_params:
  "mHandler s = Some m \<Longrightarrow> length (params cmd) < 2 \<Longrightarrow>
   handleRCPT H mp s cmd = (Panic index_out_of_range, s)"
  by (auto simp: handleRCPT_def)

lemma params_short:
  "length (cfields (parseLine l)) < 2 \<Longrightarrow> params (parseLine l) = []"
  by (simp add: parseLine_def Let_def)

text \<open>
  C3 says that a MAIL or RCPT command in sequence whose argument is missing or has no
  colon is answered with a syntax error. On the code: the handlers read
  \<^verbatim>\<open>cmd.params[1]\<close> without a check of the length, so for the lines \<^verbatim>\<open>MAIL\<close>,
  \<^verbatim>\<open>MAIL FROM\<close>, \<^verbatim>\<open>RCPT\<close> and \<^verbatim>\<open>RCPT TO\<close> the read is out of range: the handler
  panics and no reply is written.
\<close>

theorem mail_without_parameter_panics:
  "fst (serveOne sample_server sample_handlers sample_parser (greeted [''MAIL''])) =
     Panic index_out_of_range \<and>
   fst (serveOne sample_server sample_handlers sample_parser (greeted [''MAIL FROM''])) =
     Panic index_out_of_range \<and>
   fst (serveOne sample_server sample_handlers sample_parser (in_transaction [''RCPT''])) =
     Panic index_out_of_range \<and>
   fst (serveOne sample_server sample_handlers sample_parser (in_transaction [''RCPT TO''])) =
     Panic index_out_of_range \<and>
   tx (conn (snd (serveOne sample_server sample_handlers sample_parser (greeted [''MAIL''])))) = [] \<and>
   fst (handleMAIL sample_server sample_handlers sample_parser (greeted []) (parseLine ''MAIL'')) =
     Panic index_out_of_range \<and>
   fst (handleRCPT sample_handlers sample_parser (in_transaction []) (parseLine ''RCPT'')) =
     Panic index_out_of_range"
  by code_simp

section \<open>STARTTLS\<close>

text \<open>
  C4. A STARTTLS command on a session that is not encrypted, with TLS material
  configured, whose reply is written and for which the connection factory returns a
  handler, replaces the whole session by a new one: the transport is the TLS wrapper of
  the connection, the encrypted flag is set, the greeting flag is cleared, there is no
  message handler, and the policy handler is the one the factory returned. On that
  session a second STARTTLS is rejected with status 501 \<^verbatim>\<open>already running TLS\<close>, and
  MAIL is rejected with status 503 until a new greeting.
\<close>

theorem starttls_replaces_session:
  assumes plain: "\<not> isTLS s"
    and cfg: "TLSConfig srv = Some config"
    and wr: "writes_ok 1 (conn s)"
    and nh: "OnNewConnection srv (peer (conn s)) True (ext s) = (Inr newHandler, w)"
    and s': "s' = snd (handleSTARTTLS srv s cmd)"
  shows "handleSTARTTLS srv s cmd =
           (Return None, newSession newHandler (tls_Server (wrote [''250 Go ahead''] (conn s)) config) True w) \<and>
         tls_server (conn s') \<and> isTLS s' \<and> \<not> gotHelo s' \<and> mHandler s' = None \<and>
         sHandler s' = newHandler \<and> keepGoing s' \<and>
         handleSTARTTLS srv s' cmd2 =
           (Return (Some (ReportableStatus 501 ''already running TLS'')), s') \<and>
         handleMAIL srv H mp s' cmd3 =
           (Return (Some (ReportableStatus 503 ''Please introduce yourself first'')), s')"
proof -
  from wr have "writes_ok (Suc 0) (conn s)" by simp
  from PrintfLine_ok [OF this, of "''250 Go ahead''"]
  have p: "PrintfLine (fmt_d StatusOK @ '' Go ahead'') s = (None, s\<lparr>conn := wrote [''250 Go ahead''] (conn s)\<rparr>)"
    by (simp add: fmt_d_codes)
  have pe: "peer (wrote [''250 Go ahead''] (conn s)) = peer (conn s)"
    by (simp add: wrote_def)
  from plain cfg p pe nh
  have r: "handleSTARTTLS srv s cmd =
           (Return None, newSession newHandler (tls_Server (wrote [''250 Go ahead''] (conn s)) config) True w)"
    by (simp add: handleSTARTTLS_def)
  with s' have e: "s' = newSession newHandler (tls_Server (wrote [''250 Go ahead''] (conn s)) config) True w"
    by simp
  have f: "tls_server (conn s')" "isTLS s'" "\<not> gotHelo s'" "mHandler s' = None"
    "sHandler s' = newHandler" "keepGoing s'"
    unfolding e by (simp_all add: newSession_def tls_Server_def)
  from f have again: "handleSTARTTLS srv s' cmd2 =
           (Return (Some (ReportableStatus 501 ''already running TLS'')), s')"
    by (simp add: handleSTARTTLS_def NewReportableStatus_def StatusSyntaxError_def)
  from f have mail: "handleMAIL srv H mp s' cmd3 =
           (Return (Some (ReportableStatus 503 ''Please introduce yourself first'')), s')"
    by (simp add: handleMAIL_def named_status_defs status_defs)
  from r f again mail show ?thesis by simp
qed

theorem starttls_replaces_session_witness:
  "\<not> isTLS mid_transaction \<and> gotHelo mid_transaction \<and> mHandler mid_transaction = Some 1 \<and>
   TLSConfig sample_server = Some ''certificate'' \<and>
   writes_ok 1 (conn mid_transaction) \<and>
   OnNewConnection sample_server (peer (conn mid_transaction)) True (ext mid_transaction) =
     (Inr (Some 7), [''OnNewConnection 192.0.2.1:40000'']) \<and>
   handleSTARTTLS sample_server mid_transaction (parseLine ''STARTTLS'') =
     (Return None,
      newSession (Some 7)
        (tls_Server (wrote [''250 Go ahead''] (conn mid_transaction)) ''certificate'') True
        [''OnNewConnection 192.0.2.1:40000'']) \<and>
   handleSTARTTLS sample_server
       (snd (handleSTARTTLS sample_server mid_transaction (parseLine ''STARTTLS'')))
       (parseLine ''STARTTLS'') =
     (Return (Some (ReportableStatus 501 ''already running TLS'')),
      snd (handleSTARTTLS sample_server mid_transaction (parseLine ''STARTTLS''))) \<and>
   handleMAIL sample_server sample_handlers sample_parser
       (snd (handleSTARTTLS sample_server mid_transaction (parseLine ''STARTTLS'')))
       (parseLine ''MAIL FROM:<foo@bar>'') =
     (Return (Some (ReportableStatus 503 ''Please introduce yourself first'')),
      snd (handleSTARTTLS sample_server mid_transaction (parseLine ''STARTTLS'')))"
proof -
  have plain: "\<not> isTLS mid_transaction" by code_simp
  have st: "gotHelo mid_transaction" "mHandler mid_transaction = Some 1" by code_simp+
  have cfg: "TLSConfig sample_server = Some ''certificate''" by code_simp
  have wr: "writes_ok 1 (conn mid_transaction)" by code_simp
  have nh: "OnNewConnection sample_server (peer (conn mid_transaction)) True (ext mid_transaction) =
     (Inr (Some 7), [''OnNewConnection 192.0.2.1:40000''])" by code_simp
  from starttls_replaces_session [OF plain cfg wr nh refl, of "parseLine ''STARTTLS''"
      "parseLine ''STARTTLS''" sample_handlers sample_parser "parseLine ''MAIL FROM:<foo@bar>''"]
    plain st cfg wr nh
  show ?thesis by blast
qed

section \<open>The EHLO reply\<close>

lemma size_line_last: "last (digits n @ '' SIZE'') = CHR ''E''"
  by simp

lemma size_line_neq:
  "digits n @ '' SIZE'' \<noteq> ''STARTTLS''" "digits n @ '' SIZE'' \<noteq> ''AUTH PLAIN LOGIN''"
proof -
  show "digits n @ '' SIZE'' \<noteq> ''STARTTLS''"
  proof
    assume "digits n @ '' SIZE'' = ''STARTTLS''"
    then have "last (digits n @ '' SIZE'') = last ''STARTTLS''" by (rule arg_cong)
    then show False by simp
  qed
  show "digits n @ '' SIZE'' \<noteq> ''AUTH PLAIN LOGIN''"
  proof
    assume "digits n @ '' SIZE'' = ''AUTH PLAIN LOGIN''"
    then have "last (digits n @ '' SIZE'') = last ''AUTH PLAIN LOGIN''" by (rule arg_cong)
    then show False by simp
  qed
qed

lemma handleEHLO_ok:
  assumes arg: "2 \<le> length (cfields cmd)"
    and h: "sHandler s = Some h"
    and acc: "HandleHELO H h (cfields cmd ! 1) True (ext s) = (None, w)"
    and sz: "MaxMessageSize H h w = (n, w')"
    and ex: "exts = [digits (unat n) @ '' SIZE'', ''8BITMIME'', ''PIPELINING''] @
               (if TLSConfig srv \<noteq> None \<and> \<not> isTLS s then [''STARTTLS''] else []) @
               (if RequireAuth srv then [''AUTH PLAIN LOGIN''] else [])"
    and wr: "writes_ok (length exts - 1 + k) (conn s)"
  shows "handleEHLO srv H s cmd =
           (Return (Some (ReportableStatus 250 (last exts))),
            s\<lparr>mHandler := None, ext := w',
              conn := wrote (map (\<lambda>e. ''250-'' @ e) (butlast exts)) (conn s), gotHelo := True\<rparr>)"
proof -
  let ?s1 = "s\<lparr>mHandler := None, ext := w\<rparr>"
  let ?s2 = "s\<lparr>mHandler := None, ext := w'\<rparr>"
  let ?ls = "map (\<lambda>e. ''250-'' @ e) (butlast exts)"
  from h sz ex have e: "extensions srv H ?s1 = (Return exts, ?s2)"
    by (simp add: extensions_def Let_def)
  from ex have len: "1 < length exts" "exts \<noteq> []" by auto
  from wr have "writes_ok (length ?ls + k) (conn ?s2)" by simp
  from write_lines_ok [OF this]
  have wl: "write_lines ?ls ?s2 = (None, ?s2\<lparr>conn := wrote ?ls (conn ?s2)\<rparr>)" .
  from arg h acc e len wl show ?thesis
    by (simp add: handleEHLO_def Let_def fmt_d_codes NewReportableStatus_def StatusOK_def)
qed

lemma ehlo_reply_complete:
  assumes rx: "rx (conn s) = l # rest"
    and verb: "action (parseLine l) = ''EHLO''"
    and arg: "2 \<le> length (cfields (parseLine l))"
    and dl: "deadline_err (conn s) = None"
    and h: "sHandler s = Some h"
    and acc: "HandleHELO H h (cfields (parseLine l) ! 1) True (ext s) = (None, w)"
    and sz: "MaxMessageSize H h w = (n, w')"
    and ex: "exts = [digits (unat n) @ '' SIZE'', ''8BITMIME'', ''PIPELINING''] @
               (if TLSConfig srv \<noteq> None \<and> \<not> isTLS s then [''STARTTLS''] else []) @
               (if RequireAuth srv then [''AUTH PLAIN LOGIN''] else [])"
    and wr: "writes_ok (length exts) (conn s)"
  shows "fst (serveOne srv H mp s) = Return () \<and>
         tx (conn (snd (serveOne srv H mp s))) =
           tx (conn s) @ map (\<lambda>e. ''250-'' @ e) (butlast exts) @ [''250 '' @ last exts] \<and>
         gotHelo (snd (serveOne srv H mp s)) \<and>
         fst (extensions srv H (s\<lparr>ext := w\<rparr>)) = Return exts \<and>
         count_list exts ''STARTTLS'' = (if TLSConfig srv \<noteq> None \<and> \<not> isTLS s then 1 else 0) \<and>
         (''AUTH PLAIN LOGIN'' \<in> set exts) = RequireAuth srv"
proof -
  let ?s0 = "s\<lparr>conn := (conn s)\<lparr>rx := rest\<rparr>\<rparr>"
  let ?ls = "map (\<lambda>e. ''250-'' @ e) (butlast exts)"
  from ex have len: "exts \<noteq> []" "length exts - 1 + 1 = length exts" by auto
  from wr len have wr0: "writes_ok (length exts - 1 + 1) (conn ?s0)"
    by (simp add: writes_ok_def)
  from h have h0: "sHandler ?s0 = Some h" by simp
  from acc have acc0: "HandleHELO H h (cfields (parseLine l) ! 1) True (ext ?s0) = (None, w)" by simp
  from ex have ex0: "exts = [digits (unat n) @ '' SIZE'', ''8BITMIME'', ''PIPELINING''] @
               (if TLSConfig srv \<noteq> None \<and> \<not> isTLS ?s0 then [''STARTTLS''] else []) @
               (if RequireAuth srv then [''AUTH PLAIN LOGIN''] else [])" by simp
  let ?s1 = "?s0\<lparr>mHandler := None, ext := w', conn := wrote ?ls (conn ?s0), gotHelo := True\<rparr>"
  from handleEHLO_ok [OF arg h0 acc0 sz ex0 wr0]
  have he: "handleEHLO srv H ?s0 (parseLine l) = (Return (Some (ReportableStatus 250 (last exts))), ?s1)" .
  from writes_ok_wrote [of ?ls 1 "conn ?s0"] wr0 have "writes_ok (Suc 0) (conn ?s1)" by simp
  from handleError_reportable_ok [OF this, of H 250 "last exts"]
  have er: "handleError H (Some (ReportableStatus 250 (last exts))) ?s1 =
              (Return (), ?s1\<lparr>conn := wrote [''250 '' @ last exts] (conn ?s1)\<rparr>)"
    by (simp add: fmt_d_codes)
  from verb have "operationHandlers srv H mp (action (parseLine l)) = Some (handleEHLO srv H)"
    by (simp add: operationHandlers_simps)
  from serveOne_dispatch [OF rx dl this] he er
  have so: "serveOne srv H mp s = (Return (), ?s1\<lparr>conn := wrote [''250 '' @ last exts] (conn ?s1)\<rparr>)"
    by simp
  have t: "tx (conn (snd (serveOne srv H mp s))) = tx (conn s) @ ?ls @ [''250 '' @ last exts]"
    unfolding so by (simp add: wrote_def)
  from h sz ex have e: "fst (extensions srv H (s\<lparr>ext := w\<rparr>)) = Return exts"
    by (simp add: extensions_def Let_def)
  have c: "count_list exts ''STARTTLS'' = (if TLSConfig srv \<noteq> None \<and> \<not> isTLS s then 1 else 0)"
    unfolding ex by (simp add: size_line_neq)
  have a: "(''AUTH PLAIN LOGIN'' \<in> set exts) = RequireAuth srv"
    unfolding ex by (simp add: size_line_neq)
  from so t e c a show ?thesis by simp
qed

lemma ehlo_reply_prefix:
  assumes rx: "rx (conn s) = l # rest"
    and verb: "action (parseLine l) = ''EHLO''"
    and arg: "2 \<le> length (cfields (parseLine l))"
    and dl: "deadline_err (conn s) = None"
    and h: "sHandler s = Some h"
    and acc: "HandleHELO H h (cfields (parseLine l) ! 1) True (ext s) = (None, w)"
    and sz: "MaxMessageSize H h w = (n, w')"
    and ex: "exts = [digits (unat n) @ '' SIZE'', ''8BITMIME'', ''PIPELINING''] @
               (if TLSConfig srv \<noteq> None \<and> \<not> isTLS s then [''STARTTLS''] else []) @
               (if RequireAuth srv then [''AUTH PLAIN LOGIN''] else [])"
  shows "\<exists>k\<le>length exts.
           tx (conn (snd (serveOne srv H mp s))) =
             tx (conn s) @ take k (map (\<lambda>e. ''250-'' @ e) (butlast exts) @ [''250 '' @ last exts])"
proof -
  define ls where "ls = map (\<lambda>e. ''250-'' @ e) (butlast exts)"
  define fin where "fin = ''250 '' @ last exts"
  let ?s0 = "s\<lparr>conn := (conn s)\<lparr>rx := rest\<rparr>\<rparr>"
  let ?s1 = "?s0\<lparr>mHandler := None, ext := w\<rparr>"
  let ?s2 = "?s0\<lparr>mHandler := None, ext := w'\<rparr>"
  from ex have len: "exts \<noteq> []" "1 < length exts" by auto
  from ex have lls: "length ls = length exts - 1" by (simp add: ls_def)
  have lines: "map (\<lambda>ext. fmt_d 250 @ CHR ''-'' # ext) (butlast exts) = ls"
    by (simp add: ls_def fmt_d_codes)
  have fin': "fmt_d 250 @ '' '' @ last exts = fin"
    by (simp add: fin_def fmt_d_codes)
  from h sz ex have e: "extensions srv H ?s1 = (Return exts, ?s2)"
    by (simp add: extensions_def Let_def)
  from verb have op: "operationHandlers srv H mp (action (parseLine l)) = Some (handleEHLO srv H)"
    by (simp add: operationHandlers_simps)
  note so = serveOne_dispatch [OF rx dl op]
  from arg h acc e len
  have he: "handleEHLO srv H ?s0 (parseLine l) =
      (case write_lines ls ?s2 of
         (Some e, s3) \<Rightarrow> (Return (Some e), s3)
       | (None, s3) \<Rightarrow> (Return (Some (ReportableStatus 250 (last exts))), s3\<lparr>gotHelo := True\<rparr>))"
    by (simp add: handleEHLO_def Let_def lines NewReportableStatus_def StatusOK_def
        split: prod.splits option.splits)
  from write_lines_result [of ls ?s2]
  have "\<exists>k\<le>length exts. tx (conn (snd (serveOne srv H mp s))) = tx (conn s) @ take k (ls @ [fin])"
  proof
    assume wl: "write_lines ls ?s2 = (None, ?s2\<lparr>conn := wrote ls (conn ?s2)\<rparr>)"
    let ?s3 = "?s2\<lparr>conn := wrote ls (conn ?s2), gotHelo := True\<rparr>"
    let ?X = "handleError H (Some (ReportableStatus 250 (last exts))) ?s3"
    from he wl so have s1: "serveOne srv H mp s = ?X"
      by simp
    have t3: "tx (conn ?s3) = tx (conn s) @ ls"
      by (simp add: tx_wrote)
    from handleError_reportable_conn [of H 250 "last exts" ?s3]
    have "tx (conn (snd ?X)) = tx (conn s) @ ls \<or> tx (conn (snd ?X)) = tx (conn s) @ ls @ [fin]"
    proof
      assume "conn (snd ?X) = conn ?s3"
      then have "tx (conn (snd ?X)) = tx (conn ?s3)" by (rule arg_cong)
      with t3 show ?thesis by simp
    next
      assume "conn (snd ?X) = wrote [fmt_d 250 @ '' '' @ last exts] (conn ?s3)"
      then have "tx (conn (snd ?X)) = tx (wrote [fmt_d 250 @ '' '' @ last exts] (conn ?s3))"
        by (rule arg_cong)
      also have "\<dots> = tx (conn ?s3) @ [fin]"
        unfolding fin' by (rule tx_wrote)
      finally show ?thesis using t3 by simp
    qed
    then show ?thesis
    proof
      assume "tx (conn (snd ?X)) = tx (conn s) @ ls"
      with lls s1 have "length exts - 1 \<le> length exts \<and>
          tx (conn (snd (serveOne srv H mp s))) = tx (conn s) @ take (length exts - 1) (ls @ [fin])"
        by simp
      then show ?thesis by blast
    next
      assume "tx (conn (snd ?X)) = tx (conn s) @ ls @ [fin]"
      with lls len s1 have "length exts \<le> length exts \<and>
          tx (conn (snd (serveOne srv H mp s))) = tx (conn s) @ take (length exts) (ls @ [fin])"
        by simp
      then show ?thesis by blast
    qed
  next
    assume "\<exists>k t. k < length ls \<and>
      write_lines ls ?s2 = (Some (OtherError t), ?s2\<lparr>conn := wrote (take k ls) (conn ?s2)\<rparr>)"
    then obtain k t where k: "k < length ls"
      and wl: "write_lines ls ?s2 = (Some (OtherError t), ?s2\<lparr>conn := wrote (take k ls) (conn ?s2)\<rparr>)"
      by blast
    let ?s3 = "?s2\<lparr>conn := wrote (take k ls) (conn ?s2)\<rparr>"
    let ?X = "handleError H (Some (OtherError t)) ?s3"
    from he wl so have s1: "serveOne srv H mp s = ?X"
      by simp
    have "conn (snd ?X) = conn ?s3" by (rule handleError_fatal_conn)
    then have "tx (conn (snd ?X)) = tx (conn ?s3)" by (rule arg_cong)
    also have "\<dots> = tx (conn s) @ take k ls" by (simp add: tx_wrote)
    finally have "tx (conn (snd ?X)) = tx (conn s) @ take k ls" .
    with k lls s1 have "k \<le> length exts \<and>
        tx (conn (snd (serveOne srv H mp s))) = tx (conn s) @ take k (ls @ [fin])"
      by simp
    then show ?thesis by blast
  qed
  then show ?thesis unfolding ls_def fin_def .
qed

text \<open>
  C5. An EHLO command with an argument whose greeting the policy handler accepts is
  answered with one line per capability: every line but the last in the continuation
  form \<^verbatim>\<open>250-text\<close>, the last in the terminating form \<^verbatim>\<open>250 text\<close>. What is written is
  always a prefix of that reply, and it is the whole reply when the writes succeed. The capabilities are the list \<^verbatim>\<open>extensions\<close> returns; STARTTLS is in it
  exactly once when TLS material is configured and the session is not encrypted, and not
  at all otherwise; \<^verbatim>\<open>AUTH PLAIN LOGIN\<close> is in it exactly when the server requires AUTH.
\<close>

theorem ehlo_reply_multiline:
  assumes rx: "rx (conn s) = l # rest"
    and verb: "action (parseLine l) = ''EHLO''"
    and arg: "2 \<le> length (cfields (parseLine l))"
    and dl: "deadline_err (conn s) = None"
    and h: "sHandler s = Some h"
    and acc: "HandleHELO H h (cfields (parseLine l) ! 1) True (ext s) = (None, w)"
    and sz: "MaxMessageSize H h w = (n, w')"
    and ex: "exts = [digits (unat n) @ '' SIZE'', ''8BITMIME'', ''PIPELINING''] @
               (if TLSConfig srv \<noteq> None \<and> \<not> isTLS s then [''STARTTLS''] else []) @
               (if RequireAuth srv then [''AUTH PLAIN LOGIN''] else [])"
  shows "(\<exists>k\<le>length exts.
            tx (conn (snd (serveOne srv H mp s))) =
              tx (conn s) @ take k (map (\<lambda>e. ''250-'' @ e) (butlast exts) @ [''250 '' @ last exts])) \<and>
         (writes_ok (length exts) (conn s) \<longrightarrow>
            fst (serveOne srv H mp s) = Return () \<and>
            tx (conn (snd (serveOne srv H mp s))) =
              tx (conn s) @ map (\<lambda>e. ''250-'' @ e) (butlast exts) @ [''250 '' @ last exts] \<and>
            gotHelo (snd (serveOne srv H mp s))) \<and>
         fst (extensions srv H (s\<lparr>ext := w\<rparr>)) = Return exts \<and>
         count_list exts ''STARTTLS'' = (if TLSConfig srv \<noteq> None \<and> \<not> isTLS s then 1 else 0) \<and>
         (''AUTH PLAIN LOGIN'' \<in> set exts) = RequireAuth srv"
proof (intro conjI impI)
  show "\<exists>k\<le>length exts.
            tx (conn (snd (serveOne srv H mp s))) =
              tx (conn s) @ take k (map (\<lambda>e. ''250-'' @ e) (butlast exts) @ [''250 '' @ last exts])"
    using rx verb arg dl h acc sz ex by (rule ehlo_reply_prefix)
next
  assume wr: "writes_ok (length exts) (conn s)"
  note all = ehlo_reply_complete [OF rx verb arg dl h acc sz ex wr, of mp]
  from all show "fst (serveOne srv H mp s) = Return ()" by blast
  from all show "tx (conn (snd (serveOne srv H mp s))) =
      tx (conn s) @ map (\<lambda>e. ''250-'' @ e) (butlast exts) @ [''250 '' @ last exts]" by blast
  from all show "gotHelo (snd (serveOne srv H mp s))" by blast
next
  from h sz ex show "fst (extensions srv H (s\<lparr>ext := w\<rparr>)) = Return exts"
    by (simp add: extensions_def Let_def)
next
  show "count_list exts ''STARTTLS'' = (if TLSConfig srv \<noteq> None \<and> \<not> isTLS s then 1 else 0)"
    unfolding ex by (simp add: size_line_neq)
next
  show "(''AUTH PLAIN LOGIN'' \<in> set exts) = RequireAuth srv"
    unfolding ex by (simp add: size_line_neq)
qed

theorem ehlo_reply_multiline_witness:
  "rx (conn (sample_session [''ehlo client.example.org'', ''QUIT''])) =
     ''ehlo client.example.org'' # [''QUIT''] \<and>
   action (parseLine ''ehlo client.example.org'') = ''EHLO'' \<and>
   2 \<le> length (cfields (parseLine ''ehlo client.example.org'')) \<and>
   sHandler (sample_session [''ehlo client.example.org'', ''QUIT'']) = Some 0 \<and>
   HandleHELO sample_handlers 0 (cfields (parseLine ''ehlo client.example.org'') ! 1) True
       (ext (sample_session [''ehlo client.example.org'', ''QUIT''])) =
     (None, [''HandleHELO client.example.org'']) \<and>
   writes_ok 5 (conn (sample_session [''ehlo client.example.org'', ''QUIT''])) \<and>
   fst (serveOne sample_server sample_handlers sample_parser
          (sample_session [''ehlo client.example.org'', ''QUIT''])) = Return () \<and>
   tx (conn (snd (serveOne sample_server sample_handlers sample_parser
                    (sample_session [''ehlo client.example.org'', ''QUIT''])))) =
     [''250-1024 SIZE'', ''250-8BITMIME'', ''250-PIPELINING'', ''250-STARTTLS'',
      ''250 AUTH PLAIN LOGIN'']"
proof -
  let ?S = "sample_session [''ehlo client.example.org'', ''QUIT'']"
  let ?L = "''ehlo client.example.org''"
  let ?exts = "[''1024 SIZE'', ''8BITMIME'', ''PIPELINING'', ''STARTTLS'', ''AUTH PLAIN LOGIN'']"
  have rx: "rx (conn ?S) = ?L # [''QUIT'']" by code_simp
  have verb: "action (parseLine ?L) = ''EHLO''" by code_simp
  have arg: "2 \<le> length (cfields (parseLine ?L))" by code_simp
  have dl: "deadline_err (conn ?S) = None" by code_simp
  have h: "sHandler ?S = Some 0" by code_simp
  have acc: "HandleHELO sample_handlers 0 (cfields (parseLine ?L) ! 1) True (ext ?S) =
               (None, [''HandleHELO client.example.org''])" by code_simp
  have sz: "MaxMessageSize sample_handlers 0 [''HandleHELO client.example.org''] =
              (1024, [''HandleHELO client.example.org''])" by code_simp
  have ex: "?exts = [digits (unat (1024 :: 64 word)) @ '' SIZE'', ''8BITMIME'', ''PIPELINING''] @
               (if TLSConfig sample_server \<noteq> None \<and> \<not> isTLS ?S then [''STARTTLS''] else []) @
               (if RequireAuth sample_server then [''AUTH PLAIN LOGIN''] else [])" by code_simp
  have wr: "writes_ok (length ?exts) (conn ?S)" by code_simp
  have wr5: "writes_ok 5 (conn ?S)" by code_simp
  have tx0: "tx (conn ?S) = []" by code_simp
  note whole = ehlo_reply_multiline [OF rx verb arg dl h acc sz ex, of sample_parser,
      THEN conjunct2, THEN conjunct1, THEN mp, OF wr]
  from whole have r: "fst (serveOne sample_server sample_handlers sample_parser ?S) = Return ()"
    by (rule conjunct1)
  from whole [THEN conjunct2, THEN conjunct1] tx0
  have t: "tx (conn (snd (serveOne sample_server sample_handlers sample_parser ?S))) =
     [''250-1024 SIZE'', ''250-8BITMIME'', ''250-PIPELINING'', ''250-STARTTLS'',
      ''250 AUTH PLAIN LOGIN'']"
    by simp
  from rx verb arg h acc wr5 r t show ?thesis by (intro conjI)
qed

section \<open>AUTH PLAIN\<close>





section \<open>MAIL\<close>

text \<open>
  C7. A MAIL command issued before a successful HELO or EHLO is rejected with the
  bad-sequence status 503. After the greeting, when the server requires TLS and the
  session is not encrypted, it is rejected with status 503 and a message that tells the
  client to start TLS first (without the greeting the first rejection applies; the status
  is 503 either way). Otherwise, when the address parameter is a valid bracketed address
  and the policy handler returns a message handler for it, the command returns the 250
  status and the session stores that message handler as its active one.
\<close>

theorem mail_sequence:
  "(\<not> gotHelo s \<longrightarrow>
      handleMAIL srv H mp s cmd =
        (Return (Some (ReportableStatus 503 ''Please introduce yourself first'')), s)) \<and>
   (gotHelo s \<and> RequireTLS srv \<and> \<not> isTLS s \<longrightarrow>
      handleMAIL srv H mp s cmd =
        (Return (Some (ReportableStatus 503 ''please start TLS 1st'')), s)) \<and>
   (RequireTLS srv \<and> \<not> isTLS s \<longrightarrow>
      (\<exists>msg. handleMAIL srv H mp s cmd = (Return (Some (ReportableStatus 503 msg)), s))) \<and>
   (gotHelo s \<and> \<not> (RequireTLS srv \<and> \<not> isTLS s) \<and> 2 \<le> length (params cmd) \<and>
    parseAddress mp (params cmd ! 1) = Inr from \<and> sHandler s = Some h \<and>
    GetMessageHandler H h from (ext s) = (Inr m, w) \<longrightarrow>
      handleMAIL srv H mp s cmd =
        (Return (Some (ReportableStatus 250 ''Go ahead'')), s\<lparr>ext := w, mHandler := m\<rparr>))"
  by (auto simp add: handleMAIL_def named_status_defs status_defs)

theorem mail_sequence_witness:
  "\<not> gotHelo (sample_session []) \<and>
   handleMAIL sample_server sample_handlers sample_parser (sample_session [])
       (parseLine ''MAIL FROM:<foo@bar>'') =
     (Return (Some (ReportableStatus 503 ''Please introduce yourself first'')), sample_session []) \<and>
   gotHelo mid_transaction \<and> RequireTLS (sample_server\<lparr>RequireTLS := True\<rparr>) \<and>
   \<not> isTLS mid_transaction \<and>
   handleMAIL (sample_server\<lparr>RequireTLS := True\<rparr>) sample_handlers sample_parser mid_transaction
       (parseLine ''MAIL FROM:<foo@bar>'') =
     (Return (Some (ReportableStatus 503 ''please start TLS 1st'')), mid_transaction) \<and>
   2 \<le> length (params (parseLine ''MAIL FROM:<foo@bar>'')) \<and>
   parseAddress sample_parser (params (parseLine ''MAIL FROM:<foo@bar>'') ! 1) = Inr ''foo@bar'' \<and>
   sHandler mid_transaction = Some 0 \<and>
   GetMessageHandler sample_handlers 0 ''foo@bar'' (ext mid_transaction) =
     (Inr (Some 1), [''GetMessageHandler foo@bar'']) \<and>
   handleMAIL sample_server sample_handlers sample_parser mid_transaction
       (parseLine ''MAIL FROM:<foo@bar>'') =
     (Return (Some (ReportableStatus 250 ''Go ahead'')),
      mid_transaction\<lparr>ext := [''GetMessageHandler foo@bar''], mHandler := Some 1\<rparr>)"
proof -
  have a: "\<not> gotHelo (sample_session [])" "gotHelo mid_transaction" "\<not> isTLS mid_transaction"
    "sHandler mid_transaction = Some 0" "RequireTLS (sample_server\<lparr>RequireTLS := True\<rparr>)"
    "\<not> RequireTLS sample_server"
    by (simp_all add: mid_transaction_def sample_defs)
  have b: "2 \<le> length (params (parseLine ''MAIL FROM:<foo@bar>''))"
    by code_simp
  have c: "parseAddress sample_parser (params (parseLine ''MAIL FROM:<foo@bar>'') ! 1) = Inr ''foo@bar''"
    by code_simp
  have d: "GetMessageHandler sample_handlers 0 ''foo@bar'' (ext mid_transaction) =
     (Inr (Some 1), [''GetMessageHandler foo@bar''])"
    by code_simp
  from
    mail_sequence [of "sample_session []" sample_server sample_handlers sample_parser
      "parseLine ''MAIL FROM:<foo@bar>''"]
    mail_sequence [of mid_transaction "sample_server\<lparr>RequireTLS := True\<rparr>" sample_handlers
      sample_parser "parseLine ''MAIL FROM:<foo@bar>''"]
    mail_sequence [of mid_transaction sample_server sample_handlers sample_parser
      "parseLine ''MAIL FROM:<foo@bar>''" "''foo@bar''" 0 "Some 1" "[''GetMessageHandler foo@bar'']"]
    a b c d
  show ?thesis by simp
qed

section \<open>The address validator\<close>



section \<open>Greetings and the mail transaction\<close>

text \<open>
  C9. An EHLO or HELO command that carries an argument leaves the session without an
  active message handler, whatever the policy handler answers and whatever happens to
  the writes: the handler is cleared before \<^verbatim>\<open>HandleHELO\<close> is called. In particular,
  when the policy handler rejects the greeting, its error is returned and the only
  change to the session is the cleared message handler.
\<close>

theorem greeting_clears_message_handler:
  assumes "2 \<le> length (cfields cmd)"
  shows "mHandler (snd (handleEHLO srv H s cmd)) = None \<and>
         mHandler (snd (handleHELO H s cmd)) = None \<and>
         (sHandler s = Some h \<and> HandleHELO H h (cfields cmd ! 1) True (ext s) = (Some e, w) \<longrightarrow>
            handleEHLO srv H s cmd = (Return (Some e), s\<lparr>mHandler := None, ext := w\<rparr>)) \<and>
         (sHandler s = Some h \<and> HandleHELO H h (cfields cmd ! 1) False (ext s) = (Some e', w') \<longrightarrow>
            handleHELO H s cmd = (Return (Some e'), s\<lparr>mHandler := None, ext := w'\<rparr>))"
proof (intro conjI impI)
  show "mHandler (snd (handleEHLO srv H s cmd)) = None"
    using assms by (rule handleEHLO_clears)
next
  show "mHandler (snd (handleHELO H s cmd)) = None"
    using assms by (simp add: handleHELO_def Let_def split: option.splits prod.splits)
next
  assume "sHandler s = Some h \<and> HandleHELO H h (cfields cmd ! 1) True (ext s) = (Some e, w)"
  with assms show "handleEHLO srv H s cmd = (Return (Some e), s\<lparr>mHandler := None, ext := w\<rparr>)"
    by (simp add: handleEHLO_def Let_def)
next
  assume "sHandler s = Some h \<and> HandleHELO H h (cfields cmd ! 1) False (ext s) = (Some e', w')"
  with assms show "handleHELO H s cmd = (Return (Some e'), s\<lparr>mHandler := None, ext := w'\<rparr>)"
    by (simp add: handleHELO_def Let_def)
qed

theorem greeting_clears_message_handler_witness:
  "2 \<le> length (cfields (parseLine ''EHLO localhost'')) \<and>
   mHandler mid_transaction = Some 1 \<and>
   sHandler mid_transaction = Some 0 \<and>
   HandleHELO sample_handlers 0 (cfields (parseLine ''EHLO localhost'') ! 1) True (ext mid_transaction) =
     (Some (ReportableStatus 550 ''Who are you?''), [''HandleHELO localhost'']) \<and>
   handleEHLO sample_server sample_handlers mid_transaction (parseLine ''EHLO localhost'') =
     (Return (Some (ReportableStatus 550 ''Who are you?'')),
      mid_transaction\<lparr>mHandler := None, ext := [''HandleHELO localhost'']\<rparr>) \<and>
   mHandler (snd (handleHELO sample_handlers mid_transaction (parseLine ''EHLO localhost''))) = None"
proof -
  have a: "2 \<le> length (cfields (parseLine ''EHLO localhost''))"
    by code_simp
  have b: "mHandler mid_transaction = Some 1" "sHandler mid_transaction = Some 0"
    by (simp_all add: mid_transaction_def sample_defs)
  have c: "HandleHELO sample_handlers 0 (cfields (parseLine ''EHLO localhost'') ! 1) True (ext mid_transaction) =
     (Some (ReportableStatus 550 ''Who are you?''), [''HandleHELO localhost''])"
    by code_simp
  from greeting_clears_message_handler [OF a, of sample_server sample_handlers mid_transaction
      0 "ReportableStatus 550 ''Who are you?''" "[''HandleHELO localhost'']"] a b c
  show ?thesis by simp
qed

section \<open>The capability list\<close>

text \<open>
  C10. For every server configuration and session state, the capability list that
  \<^verbatim>\<open>extensions\<close> builds has at least three entries, and its first three are the size
  limit, 8BITMIME and PIPELINING; hence the read of the last element in \<^verbatim>\<open>handleEHLO\<close>
  is never out of range. (With a nil policy handler no list is built at all: the call of
  \<^verbatim>\<open>MaxMessageSize\<close> panics.)
\<close>

theorem extensions_at_least_three:
  "(sHandler s = Some h \<longrightarrow>
      (\<exists>exts s'. extensions srv H s = (Return exts, s') \<and> 3 \<le> length exts \<and>
         take 3 exts =
           [digits (unat (fst (MaxMessageSize H h (ext s)))) @ '' SIZE'', ''8BITMIME'',
            ''PIPELINING''])) \<and>
   (sHandler s = None \<longrightarrow> fst (extensions srv H s) = Panic nil_dereference) \<and>
   fst (handleEHLO srv H s cmd) \<noteq> Panic index_out_of_range"
proof (intro conjI impI)
  assume "sHandler s = Some h"
  then show "\<exists>exts s'. extensions srv H s = (Return exts, s') \<and> 3 \<le> length exts \<and>
         take 3 exts =
           [digits (unat (fst (MaxMessageSize H h (ext s)))) @ '' SIZE'', ''8BITMIME'',
            ''PIPELINING'']"
    by (simp add: extensions_def Let_def split: prod.splits)
next
  assume "sHandler s = None"
  then show "fst (extensions srv H s) = Panic nil_dereference"
    by (simp add: extensions_def)
next
  show "fst (handleEHLO srv H s cmd) \<noteq> Panic index_out_of_range"
    by (auto simp: handleEHLO_def Let_def nil_dereference_def index_out_of_range_def
        extensions_def split: option.splits prod.splits if_splits outcome.splits)
qed

theorem extensions_at_least_three_witness:
  "sHandler (sample_session []) = Some 0 \<and>
   extensions sample_server sample_handlers (sample_session []) =
     (Return [''1024 SIZE'', ''8BITMIME'', ''PIPELINING'', ''STARTTLS'', ''AUTH PLAIN LOGIN''],
      sample_session []) \<and>
   fst (handleEHLO sample_server sample_handlers (sample_session []) (parseLine ''EHLO'')) \<noteq>
     Panic index_out_of_range"
proof -
  have h: "sHandler (sample_session []) = Some 0"
    by (simp add: sample_defs)
  have e: "extensions sample_server sample_handlers (sample_session []) =
     (Return [''1024 SIZE'', ''8BITMIME'', ''PIPELINING'', ''STARTTLS'', ''AUTH PLAIN LOGIN''],
      sample_session [])"
    by code_simp
  from extensions_at_least_three [of "sample_session []" 0 sample_server sample_handlers
      "parseLine ''EHLO''"] h e
  show ?thesis by blast
qed

end
